theory Spec2Isabelle
  imports Main
begin

section \<open>Exceptions and strings\<close>

text \<open>
  A thrown JavaScript value is modelled by the message of the \<^verbatim>\<open>Error\<close> object.
  An asynchronous function that can reject returns \<open>exn + 'a\<close>, with \<open>Inl\<close> the
  rejection. A \<open>char\<close> stands for one UTF-16 code unit in the range U+0000..U+00FF.
\<close>

datatype exn = Error string

subsection \<open>String.prototype.trim\<close>

text \<open>
  The white space and line terminator code units of ECMAScript below U+0100:
  TAB, LF, VT, FF, CR, SPACE and NO-BREAK SPACE.
\<close>

definition is_js_space :: "char \<Rightarrow> bool" where
  "is_js_space c = (of_char c \<in> {9, 10, 11, 12, 13, 32, 160 :: nat})"

definition trim :: "string \<Rightarrow> string" where
  "trim s = rev (dropWhile is_js_space (rev (dropWhile is_js_space s)))"

subsection \<open>Number to string, toLowerCase, the \<open>||\<close> default\<close>

text \<open>
  \<open>show_nat\<close> is the decimal rendering that a template literal gives a non-negative
  integer (\<^verbatim>\<open>process.pid\<close>, \<^verbatim>\<open>Date.now()\<close>, a step index); such numbers stay below
  \<open>10^21\<close>, so no exponent is printed.
\<close>

definition digit_char :: "nat \<Rightarrow> char" where
  "digit_char d = ''0123456789'' ! d"

fun show_nat :: "nat \<Rightarrow> string" where
  "show_nat n = (if n < 10 then [digit_char n] else show_nat (n div 10) @ [digit_char (n mod 10)])"

declare show_nat.simps [simp del]

text \<open>\<open>toLowerCase\<close> on the letters A to Z; other code units are left as they are.\<close>

definition lower_char :: "char \<Rightarrow> char" where
  "lower_char c =
     (case map_of (zip ''ABCDEFGHIJKLMNOPQRSTUVWXYZ'' ''abcdefghijklmnopqrstuvwxyz'') c of
        Some l \<Rightarrow> l
      | None \<Rightarrow> c)"

definition toLowerCase :: "string \<Rightarrow> string" where
  "toLowerCase s = map lower_char s"

text \<open>
  \<^verbatim>\<open>x || d\<close> on an optional string: \<^verbatim>\<open>undefined\<close> and the empty string are falsy.
\<close>

definition or_default :: "string option \<Rightarrow> string \<Rightarrow> string" where
  "or_default v d = (case v of None \<Rightarrow> d | Some s \<Rightarrow> if s = [] then d else s)"

subsection \<open>The file-name sanitiser\<close>

text \<open>
  \<^verbatim>\<open>
  name.replace(/[^a-zA-Z0-9_-]+/g, '_')
      .replace(/_+/g, '_')
      .replace(/^_|_$/g, '')
  \<close>
  Each global replace works on maximal runs, left to right. The last one removes one
  underscore at the start and one at the end.
\<close>

definition is_name_char :: "char \<Rightarrow> bool" where
  "is_name_char c =
     (let n = (of_char c :: nat)
      in (97 \<le> n \<and> n \<le> 122) \<or> (65 \<le> n \<and> n \<le> 90) \<or> (48 \<le> n \<and> n \<le> 57)
         \<or> c = CHR ''_'' \<or> c = CHR ''-'')"

function replace_runs :: "(char \<Rightarrow> bool) \<Rightarrow> string \<Rightarrow> string" where
  "replace_runs P [] = []"
| "replace_runs P (c # cs) =
     (if P c then CHR ''_'' # replace_runs P (dropWhile P cs) else c # replace_runs P cs)"
  by pat_completeness auto
termination
  by (relation "measure (\<lambda>(P, s). length s)")
     (auto simp: length_dropWhile_le less_Suc_eq_le)

definition strip_edge_underscores :: "string \<Rightarrow> string" where
  "strip_edge_underscores s =
     (let s1 = (case s of c # r \<Rightarrow> if c = CHR ''_'' then r else s | [] \<Rightarrow> s)
      in if s1 \<noteq> [] \<and> last s1 = CHR ''_'' then butlast s1 else s1)"

definition sanitize :: "string \<Rightarrow> string" where
  "sanitize name =
     strip_edge_underscores
       (replace_runs (\<lambda>c. c = CHR ''_'')
          (replace_runs (\<lambda>c. \<not> is_name_char c) name))"

subsection \<open>parseInt(s, 10)\<close>

text \<open>
  Leading white space is skipped, one sign is read, then the longest run of decimal
  digits; with no digit the result is \<^verbatim>\<open>NaN\<close>, here \<open>None\<close>. (The rounding of
  integers beyond \<open>2^53\<close> to a double is not modelled.)
\<close>

definition is_digit :: "char \<Rightarrow> bool" where
  "is_digit c = (48 \<le> (of_char c :: nat) \<and> (of_char c :: nat) \<le> 57)"

definition digits_value :: "string \<Rightarrow> nat" where
  "digits_value ds = foldl (\<lambda>acc c. 10 * acc + ((of_char c :: nat) - 48)) 0 ds"

definition parseInt10 :: "string \<Rightarrow> int option" where
  "parseInt10 s =
     (let t = dropWhile is_js_space s;
          neg = (t \<noteq> [] \<and> hd t = CHR ''-'');
          u = (if t \<noteq> [] \<and> (hd t = CHR ''-'' \<or> hd t = CHR ''+'') then tl t else t);
          ds = takeWhile is_digit u
      in if ds = [] then None
         else Some (if neg then - int (digits_value ds) else int (digits_value ds)))"

section \<open>Configuration (env.ts)\<close>

text \<open>
  \<^verbatim>\<open>
  export const ENV = {
    BASE_URL: process.env.BASE_URL || 'https://mb.io/',
    TRADE_URL: process.env.TRADE_URL || 'https://trade.mb.io/',
    BROWSER: process.env.BROWSER || 'chromium',
    HEADLESS: process.env.HEADLESS === 'true',
    SLOW_MO: parseInt(process.env.SLOW_MO || '0', 10),
    DEFAULT_TIMEOUT: parseInt(process.env.DEFAULT_TIMEOUT || '30000', 10),
    NAVIGATION_TIMEOUT: parseInt(process.env.NAVIGATION_TIMEOUT || '60000', 10),
    EXPECT_TIMEOUT: parseInt(process.env.EXPECT_TIMEOUT || '10000', 10),
    LOGIN_EMAIL: process.env.LOGIN_EMAIL || '',
    LOGIN_PASSWORD: process.env.LOGIN_PASSWORD || '',
    STORAGE_STATE_PATH: process.env.STORAGE_STATE_PATH || 'storage/auth.json',
    SCREENSHOT_ON_FAILURE: process.env.SCREENSHOT_ON_FAILURE === 'true',
    SCREENSHOT_EACH_STEP: process.env.SCREENSHOT_EACH_STEP !== 'false',
    VIDEO_ON_FAILURE: process.env.VIDEO_ON_FAILURE === 'true',
    TRACE_ON_FAILURE: process.env.TRACE_ON_FAILURE === 'true',
    RETRY_COUNT: parseInt(process.env.RETRY_COUNT || '2', 10),
  };
  \<close>
  \<^verbatim>\<open>process.env\<close> maps a variable name to its value, \<open>None\<close> when the variable is unset.
\<close>

record env =
  BASE_URL :: string
  TRADE_URL :: string
  BROWSER :: string
  HEADLESS :: bool
  SLOW_MO :: "int option"
  DEFAULT_TIMEOUT :: "int option"
  NAVIGATION_TIMEOUT :: "int option"
  EXPECT_TIMEOUT :: "int option"
  LOGIN_EMAIL :: string
  LOGIN_PASSWORD :: string
  STORAGE_STATE_PATH :: string
  SCREENSHOT_ON_FAILURE :: bool
  SCREENSHOT_EACH_STEP :: bool
  VIDEO_ON_FAILURE :: bool
  TRACE_ON_FAILURE :: bool
  RETRY_COUNT :: "int option"

definition ENV :: "(string \<Rightarrow> string option) \<Rightarrow> env" where
  "ENV process_env =
     \<lparr> BASE_URL = or_default (process_env ''BASE_URL'') ''https://mb.io/'',
       TRADE_URL = or_default (process_env ''TRADE_URL'') ''https://trade.mb.io/'',
       BROWSER = or_default (process_env ''BROWSER'') ''chromium'',
       HEADLESS = (process_env ''HEADLESS'' = Some ''true''),
       SLOW_MO = parseInt10 (or_default (process_env ''SLOW_MO'') ''0''),
       DEFAULT_TIMEOUT = parseInt10 (or_default (process_env ''DEFAULT_TIMEOUT'') ''30000''),
       NAVIGATION_TIMEOUT = parseInt10 (or_default (process_env ''NAVIGATION_TIMEOUT'') ''60000''),
       EXPECT_TIMEOUT = parseInt10 (or_default (process_env ''EXPECT_TIMEOUT'') ''10000''),
       LOGIN_EMAIL = or_default (process_env ''LOGIN_EMAIL'') [],
       LOGIN_PASSWORD = or_default (process_env ''LOGIN_PASSWORD'') [],
       STORAGE_STATE_PATH = or_default (process_env ''STORAGE_STATE_PATH'') ''storage/auth.json'',
       SCREENSHOT_ON_FAILURE = (process_env ''SCREENSHOT_ON_FAILURE'' = Some ''true''),
       SCREENSHOT_EACH_STEP = (process_env ''SCREENSHOT_EACH_STEP'' \<noteq> Some ''false''),
       VIDEO_ON_FAILURE = (process_env ''VIDEO_ON_FAILURE'' = Some ''true''),
       TRACE_ON_FAILURE = (process_env ''TRACE_ON_FAILURE'' = Some ''true''),
       RETRY_COUNT = parseInt10 (or_default (process_env ''RETRY_COUNT'') ''2'') \<rparr>"

section \<open>Page objects (BasePage)\<close>

text \<open>
  \<^verbatim>\<open>
  async isVisible(locator: Locator): Promise<boolean> {
    try { return await locator.isVisible(); } catch { return false; }
  }
  async isEnabled(locator: Locator): Promise<boolean> {
    try { return await locator.isEnabled(); } catch { return false; }
  }
  \<close>
  The Playwright probe is a parameter: any function from the page state and the locator
  to a boolean or a rejection.
\<close>

definition isVisible :: "('p \<Rightarrow> 'l \<Rightarrow> exn + bool) \<Rightarrow> 'p \<Rightarrow> 'l \<Rightarrow> exn + bool" where
  "isVisible locator_isVisible pg loc =
     (case locator_isVisible pg loc of Inr b \<Rightarrow> Inr b | Inl e \<Rightarrow> Inr False)"

definition isEnabled :: "('p \<Rightarrow> 'l \<Rightarrow> exn + bool) \<Rightarrow> 'p \<Rightarrow> 'l \<Rightarrow> exn + bool" where
  "isEnabled locator_isEnabled pg loc =
     (case locator_isEnabled pg loc of Inr b \<Rightarrow> Inr b | Inl e \<Rightarrow> Inr False)"

text \<open>
  \<^verbatim>\<open>
  async getAllTexts(locator: Locator): Promise<string[]> {
    const texts = await locator.allTextContents();
    return texts.map((t) => t.trim()).filter((t) => t.length > 0);
  }
  \<close>
  \<open>allTextContents\<close> yields one string per matching element, in document order, or
  rejects.
\<close>

definition getAllTexts :: "('p \<Rightarrow> 'l \<Rightarrow> exn + string list) \<Rightarrow> 'p \<Rightarrow> 'l \<Rightarrow> exn + string list" where
  "getAllTexts allTextContents pg loc =
     (case allTextContents pg loc of
        Inl e \<Rightarrow> Inl e
      | Inr texts \<Rightarrow> Inr (filter (\<lambda>t. length t > 0) (map trim texts)))"

text \<open>
  \<^verbatim>\<open>
  async scrollToBottom(): Promise<void> {
    await this.page.evaluate(() => window.scrollTo(0, document.body.scrollHeight));
  }
  // HomePage
  private get footerLinks(): Locator { return this.page.locator('footer a'); }
  async getFooterLinkTexts(): Promise<string[]> {
    await this.scrollToBottom();
    return this.getAllTexts(this.footerLinks);
  }
  \<close>
  \<open>evaluate\<close> returns the page state after the scroll, or rejects.
\<close>

definition scrollToBottom :: "('p \<Rightarrow> exn + 'p) \<Rightarrow> 'p \<Rightarrow> exn + 'p" where
  "scrollToBottom evaluate_scroll pg = evaluate_scroll pg"

definition footerLinks :: string where
  "footerLinks = ''footer a''"

definition getFooterLinkTexts ::
  "('p \<Rightarrow> exn + 'p) \<Rightarrow> ('p \<Rightarrow> string \<Rightarrow> exn + string list) \<Rightarrow> 'p \<Rightarrow> exn + string list" where
  "getFooterLinkTexts evaluate_scroll allTextContents pg =
     (case scrollToBottom evaluate_scroll pg of
        Inl e \<Rightarrow> Inl e
      | Inr pg' \<Rightarrow> getAllTexts allTextContents pg' footerLinks)"

section \<open>The login bootstrap (globalSetup)\<close>

subsection \<open>The selector loop\<close>

text \<open>
  \<^verbatim>\<open>
  for (const selector of loginSelectors) {
    try {
      const element = page.locator(selector).first();
      if (await element.isVisible({ timeout: 3000 })) {
        await element.click();
        loginClicked = true;
        console.log(`   Clicked login element: ${selector}`);
        break;
      }
    } catch {
      // Try next selector
    }
  }
  \<close>
  The same loop is written four times (login link, email field, password field, submit
  button), with \<open>click\<close> or \<open>fill\<close> as the action. Both the probe and the action are
  inside the \<^verbatim>\<open>try\<close>: a rejection of either one is swallowed and the loop goes on.
  The probe reads the world \<open>'w\<close> (browser and site); the action returns the world it
  leaves, with the exception if it rejected. The loop returns the selector it stopped at,
  the Playwright calls it made in order, and the world.
\<close>

datatype step = Probe string | Act string

fun selectorLoop ::
  "(string \<Rightarrow> 'w \<Rightarrow> exn + bool) \<Rightarrow> (string \<Rightarrow> 'w \<Rightarrow> exn option \<times> 'w) \<Rightarrow> string list \<Rightarrow> 'w
   \<Rightarrow> string option \<times> step list \<times> 'w" where
  "selectorLoop probe act [] w = (None, [], w)"
| "selectorLoop probe act (selector # rest) w =
     (case probe selector w of
        Inr True \<Rightarrow>
          (case act selector w of
             (None, w') \<Rightarrow> (Some selector, [Probe selector, Act selector], w')
           | (Some e, w') \<Rightarrow>
               (case selectorLoop probe act rest w' of
                  (r, steps, w'') \<Rightarrow> (r, Probe selector # Act selector # steps, w'')))
      | _ \<Rightarrow>
          (case selectorLoop probe act rest w of
             (r, steps, w'') \<Rightarrow> (r, Probe selector # steps, w'')))"

definition loginSelectors :: "string list" where
  "loginSelectors =
     [''a:has-text(\"Login\")'', ''a:has-text(\"Sign In\")'', ''a:has-text(\"Log In\")'',
      ''button:has-text(\"Login\")'', ''button:has-text(\"Sign In\")'',
      ''[class*=\"login\"]'', ''[class*=\"sign-in\"]'', ''[href*=\"login\"]'',
      ''[href*=\"signin\"]'']"

definition emailSelectors :: "string list" where
  "emailSelectors =
     [''input[type=\"email\"]'', ''input[name=\"email\"]'', ''input[placeholder*=\"email\" i]'',
      ''input[placeholder*=\"Email\" i]'', ''input[name=\"username\"]'', ''input[type=\"text\"]'']"

definition passwordSelectors :: "string list" where
  "passwordSelectors =
     [''input[type=\"password\"]'', ''input[name=\"password\"]'',
      ''input[placeholder*=\"password\" i]'']"

definition submitSelectors :: "string list" where
  "submitSelectors =
     [''button[type=\"submit\"]'', ''button:has-text(\"Login\")'', ''button:has-text(\"Sign In\")'',
      ''button:has-text(\"Log In\")'', ''button:has-text(\"Submit\")'', ''input[type=\"submit\"]'']"

subsection \<open>The calls globalSetup makes\<close>

text \<open>
  Node and Playwright are a parameter: a record of the calls globalSetup makes, each a
  function of the world \<open>'w\<close> that returns the world it leaves and, if it rejected, the
  exception. globalSetup holds one browser, one context and one page, so the handles are
  part of the world. Nothing is assumed about what the calls do.
\<close>

record 'w node =
  path_resolve :: "string \<Rightarrow> string"
  path_dirname :: "string \<Rightarrow> string"
  fs_existsSync :: "string \<Rightarrow> 'w \<Rightarrow> bool"
  fs_mkdirSync :: "string \<Rightarrow> 'w \<Rightarrow> exn option \<times> 'w"
  chromium_launch :: "'w \<Rightarrow> exn option \<times> 'w"
  browser_newContext :: "'w \<Rightarrow> exn option \<times> 'w"
  context_newPage :: "'w \<Rightarrow> exn option \<times> 'w"
  page_goto :: "string \<Rightarrow> nat \<Rightarrow> 'w \<Rightarrow> exn option \<times> 'w"
  locator_isVisible :: "nat \<Rightarrow> string \<Rightarrow> 'w \<Rightarrow> exn + bool"
  locator_click :: "string \<Rightarrow> 'w \<Rightarrow> exn option \<times> 'w"
  locator_fill :: "string \<Rightarrow> string \<Rightarrow> 'w \<Rightarrow> exn option \<times> 'w"
  page_waitForTimeout :: "nat \<Rightarrow> 'w \<Rightarrow> exn option \<times> 'w"
  page_waitForLoadState :: "'w \<Rightarrow> exn option \<times> 'w"
  context_storageState :: "string \<Rightarrow> 'w \<Rightarrow> exn option \<times> 'w"
  browser_close :: "'w \<Rightarrow> exn option \<times> 'w"

text \<open>
  What globalSetup does to the outside, in order: the calls and the console lines
  (the console texts are given without their emoji).
\<close>

datatype event =
    EvMkdir string
  | EvLaunch
  | EvNewContext
  | EvNewPage
  | EvGoto string
  | EvIsVisible string
  | EvClick string
  | EvFill string string
  | EvWaitForTimeout nat
  | EvWaitForLoadState
  | EvStorageState string
  | EvBrowserClose
  | EvLog string
  | EvError string exn

type_synonym 'w st = "'w \<times> event list"

text \<open>One call: run it on the world and record it.\<close>

definition call :: "event \<Rightarrow> ('w \<Rightarrow> exn option \<times> 'w) \<Rightarrow> 'w st \<Rightarrow> exn option \<times> 'w st" where
  "call ev f s = (case f (fst s) of (r, w') \<Rightarrow> (r, (w', snd s @ [ev])))"

definition console_log :: "string \<Rightarrow> 'w st \<Rightarrow> exn option \<times> 'w st" where
  "console_log msg s = (None, (fst s, snd s @ [EvLog msg]))"

definition console_error :: "string \<Rightarrow> exn \<Rightarrow> 'w st \<Rightarrow> 'w st" where
  "console_error msg e s = (fst s, snd s @ [EvError msg e])"

text \<open>Statements in sequence: the first exception ends the block.\<close>

fun run_steps :: "('s \<Rightarrow> exn option \<times> 's) list \<Rightarrow> 's \<Rightarrow> exn option \<times> 's" where
  "run_steps [] s = (None, s)"
| "run_steps (f # fs) s =
     (case f s of (None, s') \<Rightarrow> run_steps fs s' | (Some e, s') \<Rightarrow> (Some e, s'))"

text \<open>
  One of the four loops as a statement: the loop never throws; its calls go to the
  record, followed by the console line of the selector acted on.
\<close>

definition loopStep ::
  "'w node \<Rightarrow> (string \<Rightarrow> 'w \<Rightarrow> exn option \<times> 'w) \<Rightarrow> (string \<Rightarrow> event) \<Rightarrow> (string \<Rightarrow> string)
   \<Rightarrow> string list \<Rightarrow> 'w st \<Rightarrow> bool \<times> 'w st" where
  "loopStep N act actEv msg selectors s =
     (case selectorLoop (locator_isVisible N 3000) act selectors (fst s) of
        (r, steps, w') \<Rightarrow>
          (r \<noteq> None,
           (w', snd s
                @ map (\<lambda>x. case x of Probe c \<Rightarrow> EvIsVisible c | Act c \<Rightarrow> actEv c) steps
                @ (case r of Some c \<Rightarrow> [EvLog (msg c)] | None \<Rightarrow> []))))"

definition loginStep :: "'w node \<Rightarrow> 'w st \<Rightarrow> exn option \<times> 'w st" where
  "loginStep N s =
     (case loopStep N (locator_click N) EvClick (\<lambda>c. ''   Clicked login element: '' @ c)
             loginSelectors s of
        (loginClicked, s') \<Rightarrow>
          if \<not> loginClicked
          then console_log ''   No login button found - page may already be authenticated or uses different flow'' s'
          else (None, s'))"

definition emailStep :: "'w node \<Rightarrow> string \<Rightarrow> 'w st \<Rightarrow> exn option \<times> 'w st" where
  "emailStep N email s =
     (None, snd (loopStep N (\<lambda>c. locator_fill N c email) (\<lambda>c. EvFill c email)
                   (\<lambda>c. ''   Filled email using: '' @ c) emailSelectors s))"

definition passwordStep :: "'w node \<Rightarrow> string \<Rightarrow> 'w st \<Rightarrow> exn option \<times> 'w st" where
  "passwordStep N password s =
     (None, snd (loopStep N (\<lambda>c. locator_fill N c password) (\<lambda>c. EvFill c password)
                   (\<lambda>c. ''   Filled password using: '' @ c) passwordSelectors s))"

definition submitStep :: "'w node \<Rightarrow> 'w st \<Rightarrow> exn option \<times> 'w st" where
  "submitStep N s =
     (None, snd (loopStep N (locator_click N) EvClick (\<lambda>c. ''   Clicked submit: '' @ c)
                   submitSelectors s))"

subsection \<open>try, catch, finally\<close>

text \<open>
  \<^verbatim>\<open>
  try {
    await page.goto(baseUrl, { waitUntil: 'domcontentloaded', timeout: 60000 });
    ... login loop, if (!loginClicked) console.log(...)
    await page.waitForTimeout(3000);
    ... email loop, password loop, submit loop
    await page.waitForTimeout(5000);
    await page.waitForLoadState('domcontentloaded');
    await context.storageState({ path: storagePath });
    console.log(`Storage state saved to: ${storagePath}`);
  } catch (error) {
    console.error('Global setup failed:', error);
    try {
      await context.storageState({ path: storagePath });
      console.log(`Partial storage state saved to: ${storagePath}`);
    } catch (saveError) {
      console.error('Failed to save storage state:', saveError);
    }
  } finally {
    await browser.close();
    console.log('Global setup completed');
  }
  \<close>
\<close>

definition tryBlock ::
  "'w node \<Rightarrow> string \<Rightarrow> string \<Rightarrow> string \<Rightarrow> string \<Rightarrow> ('w st \<Rightarrow> exn option \<times> 'w st) list" where
  "tryBlock N baseUrl email password storagePath =
     [call (EvGoto baseUrl) (page_goto N baseUrl 60000),
      loginStep N,
      call (EvWaitForTimeout 3000) (page_waitForTimeout N 3000),
      emailStep N email,
      passwordStep N password,
      submitStep N,
      call (EvWaitForTimeout 5000) (page_waitForTimeout N 5000),
      call EvWaitForLoadState (page_waitForLoadState N),
      call (EvStorageState storagePath) (context_storageState N storagePath),
      console_log (''Storage state saved to: '' @ storagePath)]"

definition catchBlock :: "'w node \<Rightarrow> string \<Rightarrow> exn \<Rightarrow> 'w st \<Rightarrow> exn option \<times> 'w st" where
  "catchBlock N storagePath error s =
     (case run_steps
             [call (EvStorageState storagePath) (context_storageState N storagePath),
              console_log (''Partial storage state saved to: '' @ storagePath)]
             (console_error ''Global setup failed:'' error s) of
        (None, s') \<Rightarrow> (None, s')
      | (Some saveError, s') \<Rightarrow> (None, console_error ''Failed to save storage state:'' saveError s'))"

definition finallyBlock :: "'w node \<Rightarrow> 'w st \<Rightarrow> exn option \<times> 'w st" where
  "finallyBlock N s =
     run_steps [call EvBrowserClose (browser_close N), console_log ''Global setup completed''] s"

text \<open>
  The whole statement. An exception of the \<^verbatim>\<open>finally\<close> block replaces the
  completion of \<^verbatim>\<open>try\<close> and \<^verbatim>\<open>catch\<close>; otherwise that completion stands.
\<close>

definition tryCatchFinally ::
  "'w node \<Rightarrow> string \<Rightarrow> string \<Rightarrow> string \<Rightarrow> string \<Rightarrow> 'w st \<Rightarrow> exn option \<times> 'w st" where
  "tryCatchFinally N baseUrl email password storagePath s =
     (case (case run_steps (tryBlock N baseUrl email password storagePath) s of
              (None, s1) \<Rightarrow> (None, s1)
            | (Some error, s1) \<Rightarrow> catchBlock N storagePath error s1) of
        (r, s2) \<Rightarrow>
          (case finallyBlock N s2 of
             (None, s3) \<Rightarrow> (r, s3)
           | (Some e, s3) \<Rightarrow> (Some e, s3)))"

text \<open>
  \<^verbatim>\<open>
  async function globalSetup(_config?: FullConfig): Promise<void> {
    const baseUrl = process.env.BASE_URL || 'https://trade.multibank.io/';
    const email = process.env.LOGIN_EMAIL || '';
    const password = process.env.LOGIN_PASSWORD || '';
    const storagePath = path.resolve(process.cwd(),
      process.env.STORAGE_STATE_PATH || 'storage/auth.json');
    const storageDir = path.dirname(storagePath);
    if (!fs.existsSync(storageDir)) { fs.mkdirSync(storageDir, { recursive: true }); }
    console.log(...); console.log(`   Base URL: ${baseUrl}`); console.log(`   Email: ${email}`);
    const browser = await chromium.launch({ headless: true });
    const context = await browser.newContext({ ... });
    const page = await context.newPage();
    try { ... } catch (error) { ... } finally { ... }
  }
  \<close>
  The result is the exception globalSetup rejects with, \<open>None\<close> when it resolves.
\<close>

definition globalSetup ::
  "'w node \<Rightarrow> (string \<Rightarrow> string option) \<Rightarrow> 'w \<Rightarrow> exn option \<times> 'w st" where
  "globalSetup N process_env w =
     (let baseUrl = or_default (process_env ''BASE_URL'') ''https://trade.multibank.io/'';
          email = or_default (process_env ''LOGIN_EMAIL'') [];
          password = or_default (process_env ''LOGIN_PASSWORD'') [];
          storagePath =
            path_resolve N (or_default (process_env ''STORAGE_STATE_PATH'') ''storage/auth.json'');
          storageDir = path_dirname N storagePath
      in case run_steps
                [(\<lambda>s. if \<not> fs_existsSync N storageDir (fst s)
                       then call (EvMkdir storageDir) (fs_mkdirSync N storageDir) s
                       else (None, s)),
                 console_log ''Starting global setup - performing login...'',
                 console_log (''   Base URL: '' @ baseUrl),
                 console_log (''   Email: '' @ email),
                 call EvLaunch (chromium_launch N),
                 call EvNewContext (browser_newContext N),
                 call EvNewPage (context_newPage N)]
                (w, []) of
           (Some e, s) \<Rightarrow> (Some e, s)
         | (None, s) \<Rightarrow> tryCatchFinally N baseUrl email password storagePath s)"

section \<open>The browser lifecycle manager (PlaywrightManager)\<close>

subsection \<open>The Playwright objects and the file system\<close>

text \<open>
  The manager keeps handles to Playwright objects. To tell a live handle from a closed
  one, the world records the objects that are open: browsers, contexts (each with the
  browser that owns it) and pages (each with its context). The operations follow the
  Playwright documentation: closing a context closes its pages, closing a browser closes
  its contexts, closing what is already closed does nothing, and creating something
  inside a closed owner rejects. Launching a browser is taken to succeed. Fresh objects
  are numbered from a counter. The bytes of a screenshot and of a trace are not
  modelled: a string naming the page or the context stands for them.
\<close>

datatype engine = Chromium | Firefox | Webkit

datatype level = Info | Warn

record launch_options =
  headless :: bool
  slowMo :: "int option"

record context_options =
  viewport :: "nat \<times> nat"
  ignoreHTTPSErrors :: bool
  acceptDownloads :: bool
  storageState :: "string option"
  recordVideo :: "(string \<times> nat \<times> nat) option"

record context_info =
  cid :: nat
  owner :: nat
  options :: context_options
  session :: "string option"
  defaultTimeout :: "int option option"
  defaultNavigationTimeout :: "int option option"
  tracing :: bool

record world =
  next_id :: nat
  browsers :: "(nat \<times> engine \<times> launch_options) list"
  contexts :: "context_info list"
  pages :: "(nat \<times> nat) list"
  files :: "(string \<times> string) list"
  dirs :: "string list"
  logs :: "(level \<times> string) list"
  cwd :: string
  pid :: nat
  now :: nat

definition browser_live :: "world \<Rightarrow> nat \<Rightarrow> bool" where
  "browser_live w b = (b \<in> set (map fst (browsers w)))"

definition context_live :: "world \<Rightarrow> nat \<Rightarrow> bool" where
  "context_live w c = (c \<in> set (map cid (contexts w)))"

definition page_live :: "world \<Rightarrow> nat \<Rightarrow> bool" where
  "page_live w p = (p \<in> set (map fst (pages w)))"

definition target_closed :: exn where
  "target_closed = Error ''Target page, context or browser has been closed''"

definition logger :: "level \<Rightarrow> string \<Rightarrow> world \<Rightarrow> world" where
  "logger l msg w = w\<lparr>logs := logs w @ [(l, msg)]\<rparr>"

definition existsSync :: "string \<Rightarrow> world \<Rightarrow> bool" where
  "existsSync p w = (p \<in> set (map fst (files w)) \<or> p \<in> set (dirs w))"

definition mkdirSync :: "string \<Rightarrow> world \<Rightarrow> world" where
  "mkdirSync d w = (if d \<in> set (dirs w) then w else w\<lparr>dirs := dirs w @ [d]\<rparr>)"

definition writeFileSync :: "string \<Rightarrow> string \<Rightarrow> world \<Rightarrow> world" where
  "writeFileSync p dat w = w\<lparr>files := (p, dat) # filter (\<lambda>f. fst f \<noteq> p) (files w)\<rparr>"

text \<open>
  \<^verbatim>\<open>path.resolve(process.cwd(), p)\<close> and \<^verbatim>\<open>path.join(dir, name)\<close>, for paths without
  \<^verbatim>\<open>.\<close> and \<^verbatim>\<open>..\<close> segments.
\<close>

definition resolve :: "string \<Rightarrow> string \<Rightarrow> string" where
  "resolve base p = (if p \<noteq> [] \<and> hd p = CHR ''/'' then p else base @ ''/'' @ p)"

definition join :: "string \<Rightarrow> string \<Rightarrow> string" where
  "join d name = d @ ''/'' @ name"

definition launch :: "engine \<Rightarrow> launch_options \<Rightarrow> world \<Rightarrow> nat \<times> world" where
  "launch eng opts w =
     (next_id w, w\<lparr>next_id := Suc (next_id w), browsers := (next_id w, eng, opts) # browsers w\<rparr>)"

text \<open>
  \<open>newContext\<close> reads the file named by \<open>storageState\<close> and rejects when there is no
  such file.
\<close>

definition newContext :: "nat \<Rightarrow> context_options \<Rightarrow> world \<Rightarrow> exn + nat \<times> world" where
  "newContext b opts w =
     (if \<not> browser_live w b then Inl target_closed
      else case storageState opts of
             Some p \<Rightarrow>
               (case map_of (files w) p of
                  None \<Rightarrow> Inl (Error (''Error reading storage state from '' @ p))
                | Some dat \<Rightarrow>
                    Inr (next_id w,
                         w\<lparr>next_id := Suc (next_id w),
                           contexts := \<lparr>cid = next_id w, owner = b, options = opts,
                                         session = Some dat, defaultTimeout = None,
                                         defaultNavigationTimeout = None, tracing = False\<rparr>
                                       # contexts w\<rparr>))
           | None \<Rightarrow>
               Inr (next_id w,
                    w\<lparr>next_id := Suc (next_id w),
                      contexts := \<lparr>cid = next_id w, owner = b, options = opts,
                                    session = None, defaultTimeout = None,
                                    defaultNavigationTimeout = None, tracing = False\<rparr>
                                  # contexts w\<rparr>))"

definition update_context :: "nat \<Rightarrow> (context_info \<Rightarrow> context_info) \<Rightarrow> world \<Rightarrow> world" where
  "update_context c f w = w\<lparr>contexts := map (\<lambda>x. if cid x = c then f x else x) (contexts w)\<rparr>"

definition setDefaultTimeout :: "nat \<Rightarrow> int option \<Rightarrow> world \<Rightarrow> world" where
  "setDefaultTimeout c t w = update_context c (\<lambda>x. x\<lparr>defaultTimeout := Some t\<rparr>) w"

definition setDefaultNavigationTimeout :: "nat \<Rightarrow> int option \<Rightarrow> world \<Rightarrow> world" where
  "setDefaultNavigationTimeout c t w =
     update_context c (\<lambda>x. x\<lparr>defaultNavigationTimeout := Some t\<rparr>) w"

definition is_tracing :: "world \<Rightarrow> nat \<Rightarrow> bool" where
  "is_tracing w c = (\<exists>x \<in> set (contexts w). cid x = c \<and> tracing x)"

definition tracing_start :: "nat \<Rightarrow> world \<Rightarrow> exn + world" where
  "tracing_start c w =
     (if \<not> context_live w c then Inl target_closed
      else if is_tracing w c then Inl (Error ''Tracing has been already started'')
      else Inr (update_context c (\<lambda>x. x\<lparr>tracing := True\<rparr>) w))"

definition tracing_stop :: "nat \<Rightarrow> string \<Rightarrow> world \<Rightarrow> exn + world" where
  "tracing_stop c p w =
     (if \<not> context_live w c then Inl target_closed
      else if \<not> is_tracing w c then Inl (Error ''Must start tracing before stopping'')
      else Inr (writeFileSync p (''trace of context '' @ show_nat c)
                  (update_context c (\<lambda>x. x\<lparr>tracing := False\<rparr>) w)))"

definition newPage :: "nat \<Rightarrow> world \<Rightarrow> exn + nat \<times> world" where
  "newPage c w =
     (if \<not> context_live w c then Inl target_closed
      else Inr (next_id w, w\<lparr>next_id := Suc (next_id w), pages := (next_id w, c) # pages w\<rparr>))"

definition screenshot :: "nat \<Rightarrow> world \<Rightarrow> exn + string" where
  "screenshot p w =
     (if \<not> page_live w p then Inl target_closed else Inr (''png of page '' @ show_nat p))"

definition page_close :: "nat \<Rightarrow> world \<Rightarrow> world" where
  "page_close p w = w\<lparr>pages := filter (\<lambda>x. fst x \<noteq> p) (pages w)\<rparr>"

definition context_close :: "nat \<Rightarrow> world \<Rightarrow> world" where
  "context_close c w =
     w\<lparr>contexts := filter (\<lambda>x. cid x \<noteq> c) (contexts w),
       pages := filter (\<lambda>x. snd x \<noteq> c) (pages w)\<rparr>"

definition browser_close_all :: "nat \<Rightarrow> world \<Rightarrow> world" where
  "browser_close_all b w =
     w\<lparr>browsers := filter (\<lambda>x. fst x \<noteq> b) (browsers w),
       contexts := filter (\<lambda>x. owner x \<noteq> b) (contexts w),
       pages := filter (\<lambda>x. snd x \<notin> set (map cid (filter (\<lambda>x. owner x = b) (contexts w))))
                  (pages w)\<rparr>"

subsection \<open>The manager\<close>

text \<open>
  \<^verbatim>\<open>
  private static browser: Browser | null = null;
  private static context: BrowserContext | null = null;
  private static page: Page | null = null;
  \<close>
\<close>

record manager =
  m_browser :: "nat option"
  m_context :: "nat option"
  m_page :: "nat option"

definition manager0 :: manager where
  "manager0 = \<lparr>m_browser = None, m_context = None, m_page = None\<rparr>"

type_synonym state = "world \<times> manager"

text \<open>
  \<^verbatim>\<open>
  static async launchBrowser(): Promise<Browser> {
    if (this.browser) { return this.browser; }
    const launchOptions: LaunchOptions = { headless: ENV.HEADLESS, slowMo: ENV.SLOW_MO };
    const browserType = ENV.BROWSER.toLowerCase();
    logger.info(`Launching browser: ${browserType}`);
    switch (browserType) {
      case 'firefox': this.browser = await firefox.launch(launchOptions); break;
      case 'webkit': this.browser = await webkit.launch(launchOptions); break;
      case 'chromium':
      default: this.browser = await chromium.launch(launchOptions); break;
    }
    return this.browser;
  }
  \<close>
\<close>

definition engine_of :: "string \<Rightarrow> engine" where
  "engine_of browserType =
     (if browserType = ''firefox'' then Firefox
      else if browserType = ''webkit'' then Webkit
      else Chromium)"

definition launchBrowser :: "env \<Rightarrow> state \<Rightarrow> (exn + nat) \<times> state" where
  "launchBrowser E s =
     (case m_browser (snd s) of
        Some b \<Rightarrow> (Inr b, s)
      | None \<Rightarrow>
          (let launchOptions = \<lparr>headless = HEADLESS E, slowMo = SLOW_MO E\<rparr>;
               browserType = toLowerCase (BROWSER E);
               w1 = logger Info (''Launching browser: '' @ browserType) (fst s)
           in case launch (engine_of browserType) launchOptions w1 of
                (b, w2) \<Rightarrow> (Inr b, (w2, (snd s)\<lparr>m_browser := Some b\<rparr>))))"

text \<open>
  \<^verbatim>\<open>
  static async createContext(): Promise<BrowserContext> {
    if (!this.browser) { await this.launchBrowser(); }
    const contextOptions = { viewport: { width: 1920, height: 1080 },
                             ignoreHTTPSErrors: true, acceptDownloads: true };
    const storagePath = path.resolve(process.cwd(), ENV.STORAGE_STATE_PATH);
    if (fs.existsSync(storagePath)) {
      contextOptions.storageState = storagePath;
      logger.info('Using stored authentication state');
    } else {
      logger.warn('No storage state found - proceeding without authentication');
    }
    if (ENV.VIDEO_ON_FAILURE) {
      contextOptions.recordVideo = { dir: 'test-results/videos/', size: { width: 1920, height: 1080 } };
    }
    this.context = await this.browser!.newContext(contextOptions);
    this.context.setDefaultTimeout(ENV.DEFAULT_TIMEOUT);
    this.context.setDefaultNavigationTimeout(ENV.NAVIGATION_TIMEOUT);
    if (ENV.TRACE_ON_FAILURE) {
      await this.context.tracing.start({ screenshots: true, snapshots: true, sources: true });
    }
    return this.context;
  }
  \<close>
  The statements that fill \<open>contextOptions\<close> (with their log lines) are
  \<open>buildContextOptions\<close>; the non-null assertion \<^verbatim>\<open>this.browser!\<close> is a \<^verbatim>\<open>TypeError\<close>
  on null.
\<close>

definition buildContextOptions :: "env \<Rightarrow> world \<Rightarrow> context_options \<times> world" where
  "buildContextOptions E w =
     (let contextOptions = \<lparr>viewport = (1920, 1080), ignoreHTTPSErrors = True,
                             acceptDownloads = True, storageState = None,
                             recordVideo = None\<rparr>;
          storagePath = resolve (cwd w) (STORAGE_STATE_PATH E);
          (contextOptions, w') =
            (if existsSync storagePath w
             then (contextOptions\<lparr>storageState := Some storagePath\<rparr>,
                   logger Info ''Using stored authentication state'' w)
             else (contextOptions,
                   logger Warn ''No storage state found - proceeding without authentication'' w))
      in (if VIDEO_ON_FAILURE E
          then contextOptions\<lparr>recordVideo := Some (''test-results/videos/'', 1920, 1080)\<rparr>
          else contextOptions, w'))"

definition createContext :: "env \<Rightarrow> state \<Rightarrow> (exn + nat) \<times> state" where
  "createContext E s =
     (case (if m_browser (snd s) = None then launchBrowser E s else (Inr 0, s)) of
        (Inl e, s1) \<Rightarrow> (Inl e, s1)
      | (Inr _, s1) \<Rightarrow>
          (case buildContextOptions E (fst s1) of
             (contextOptions, w2) \<Rightarrow>
               (case m_browser (snd s1) of
                  None \<Rightarrow> (Inl (Error ''TypeError: Cannot read properties of null''), (w2, snd s1))
                | Some b \<Rightarrow>
                    (case newContext b contextOptions w2 of
                       Inl e \<Rightarrow> (Inl e, (w2, snd s1))
                     | Inr (c, w3) \<Rightarrow>
                         (let m = (snd s1)\<lparr>m_context := Some c\<rparr>;
                              w4 = setDefaultNavigationTimeout c (NAVIGATION_TIMEOUT E)
                                     (setDefaultTimeout c (DEFAULT_TIMEOUT E) w3)
                          in if TRACE_ON_FAILURE E
                             then (case tracing_start c w4 of
                                     Inl e \<Rightarrow> (Inl e, (w4, m))
                                   | Inr w5 \<Rightarrow> (Inr c, (w5, m)))
                             else (Inr c, (w4, m)))))))"

text \<open>
  \<^verbatim>\<open>
  static async createPage(): Promise<Page> {
    if (!this.context) { await this.createContext(); }
    this.page = await this.context!.newPage();
    logger.info('New page created');
    return this.page;
  }
  \<close>
\<close>

definition createPage :: "env \<Rightarrow> state \<Rightarrow> (exn + nat) \<times> state" where
  "createPage E s =
     (case (if m_context (snd s) = None then createContext E s else (Inr 0, s)) of
        (Inl e, s1) \<Rightarrow> (Inl e, s1)
      | (Inr _, s1) \<Rightarrow>
          (case m_context (snd s1) of
             None \<Rightarrow> (Inl (Error ''TypeError: Cannot read properties of null''), s1)
           | Some c \<Rightarrow>
               (case newPage c (fst s1) of
                  Inl e \<Rightarrow> (Inl e, s1)
                | Inr (p, w2) \<Rightarrow>
                    (Inr p, (logger Info ''New page created'' w2, (snd s1)\<lparr>m_page := Some p\<rparr>)))))"

text \<open>
  \<^verbatim>\<open>
  static getPage(): Page {
    if (!this.page) { throw new Error('Page has not been initialized. Call createPage() first.'); }
    return this.page;
  }
  static getContext(): BrowserContext {
    if (!this.context) { throw new Error('Context has not been initialized. Call createContext() first.'); }
    return this.context;
  }
  static getBrowser(): Browser {
    if (!this.browser) { throw new Error('Browser has not been initialized. Call launchBrowser() first.'); }
    return this.browser;
  }
  \<close>
\<close>

definition getPage :: "state \<Rightarrow> exn + nat" where
  "getPage s =
     (case m_page (snd s) of
        None \<Rightarrow> Inl (Error ''Page has not been initialized. Call createPage() first.'')
      | Some p \<Rightarrow> Inr p)"

definition getContext :: "state \<Rightarrow> exn + nat" where
  "getContext s =
     (case m_context (snd s) of
        None \<Rightarrow> Inl (Error ''Context has not been initialized. Call createContext() first.'')
      | Some c \<Rightarrow> Inr c)"

definition getBrowser :: "state \<Rightarrow> exn + nat" where
  "getBrowser s =
     (case m_browser (snd s) of
        None \<Rightarrow> Inl (Error ''Browser has not been initialized. Call launchBrowser() first.'')
      | Some b \<Rightarrow> Inr b)"

text \<open>
  \<^verbatim>\<open>
  static async takeScreenshot(name?: string): Promise<Buffer> {
    if (!this.page) { throw new Error('Page is not available for screenshot'); }
    const screenshotBuffer = await this.page.screenshot({ fullPage: true, type: 'png' });
    if (name) {
      const screenshotDir = 'test-results/screenshots';
      if (!fs.existsSync(screenshotDir)) { fs.mkdirSync(screenshotDir, { recursive: true }); }
      fs.writeFileSync(path.join(screenshotDir, `${name}.png`), screenshotBuffer);
    }
    return screenshotBuffer;
  }
  \<close>
\<close>

definition takeScreenshot :: "string option \<Rightarrow> state \<Rightarrow> (exn + string) \<times> state" where
  "takeScreenshot name s =
     (case m_page (snd s) of
        None \<Rightarrow> (Inl (Error ''Page is not available for screenshot''), s)
      | Some p \<Rightarrow>
          (case screenshot p (fst s) of
             Inl e \<Rightarrow> (Inl e, s)
           | Inr screenshotBuffer \<Rightarrow>
               (case name of
                  None \<Rightarrow> (Inr screenshotBuffer, s)
                | Some n \<Rightarrow>
                    if n = [] then (Inr screenshotBuffer, s)
                    else (let screenshotDir = ''test-results/screenshots'';
                              w1 = (if \<not> existsSync screenshotDir (fst s)
                                    then mkdirSync screenshotDir (fst s) else fst s)
                          in (Inr screenshotBuffer,
                              (writeFileSync (join screenshotDir (n @ ''.png''))
                                 screenshotBuffer w1, snd s))))))"

text \<open>
  \<^verbatim>\<open>
  static async saveTrace(scenarioName: string): Promise<string | null> {
    if (!this.context || !ENV.TRACE_ON_FAILURE) { return null; }
    const traceDir = 'test-results/traces';
    if (!fs.existsSync(traceDir)) { fs.mkdirSync(traceDir, { recursive: true }); }
    const safeScenarioName = scenarioName
      .replace(/[^a-zA-Z0-9_-]+/g, '_').replace(/_+/g, '_').replace(/^_|_$/g, '');
    const tracePath = path.join(traceDir,
      `${safeScenarioName || 'scenario'}_${process.pid}_${Date.now()}.zip`);
    await this.context.tracing.stop({ path: tracePath });
    logger.info(`Trace saved: ${tracePath}`);
    return tracePath;
  }
  \<close>
\<close>

definition tracePath :: "string \<Rightarrow> nat \<Rightarrow> nat \<Rightarrow> string" where
  "tracePath scenarioName process_pid date_now =
     (let traceDir = ''test-results/traces'';
          safeScenarioName = sanitize scenarioName
      in join traceDir
           (or_default (Some safeScenarioName) ''scenario''
            @ ''_'' @ show_nat process_pid @ ''_'' @ show_nat date_now @ ''.zip''))"

definition saveTrace :: "env \<Rightarrow> string \<Rightarrow> state \<Rightarrow> (exn + string option) \<times> state" where
  "saveTrace E scenarioName s =
     (case m_context (snd s) of
        None \<Rightarrow> (Inr None, s)
      | Some c \<Rightarrow>
          if \<not> TRACE_ON_FAILURE E then (Inr None, s)
          else (let traceDir = ''test-results/traces'';
                    w1 = (if \<not> existsSync traceDir (fst s) then mkdirSync traceDir (fst s)
                          else fst s);
                    tp = tracePath scenarioName (pid w1) (now w1)
                in case tracing_stop c tp w1 of
                     Inl e \<Rightarrow> (Inl e, (w1, snd s))
                   | Inr w2 \<Rightarrow> (Inr (Some tp), (logger Info (''Trace saved: '' @ tp) w2, snd s))))"

text \<open>
  \<^verbatim>\<open>
  static async closePage(): Promise<void> {
    if (this.page) { await this.page.close(); this.page = null; logger.info('Page closed'); }
  }
  static async closeContext(): Promise<void> {
    if (this.context) { await this.context.close(); this.context = null; logger.info('Context closed'); }
  }
  static async closeBrowser(): Promise<void> {
    await this.closePage();
    await this.closeContext();
    if (this.browser) { await this.browser.close(); this.browser = null; logger.info('Browser closed'); }
  }
  static async cleanup(): Promise<void> { await this.closeBrowser(); }
  \<close>
\<close>

definition closePage :: "state \<Rightarrow> (exn + unit) \<times> state" where
  "closePage s =
     (case m_page (snd s) of
        Some p \<Rightarrow>
          (Inr (), (logger Info ''Page closed'' (page_close p (fst s)), (snd s)\<lparr>m_page := None\<rparr>))
      | None \<Rightarrow> (Inr (), s))"

definition closeContext :: "state \<Rightarrow> (exn + unit) \<times> state" where
  "closeContext s =
     (case m_context (snd s) of
        Some c \<Rightarrow>
          (Inr (), (logger Info ''Context closed'' (context_close c (fst s)),
                    (snd s)\<lparr>m_context := None\<rparr>))
      | None \<Rightarrow> (Inr (), s))"

definition closeBrowser :: "state \<Rightarrow> (exn + unit) \<times> state" where
  "closeBrowser s =
     (case closePage s of
        (Inl e, s1) \<Rightarrow> (Inl e, s1)
      | (Inr _, s1) \<Rightarrow>
          (case closeContext s1 of
             (Inl e, s2) \<Rightarrow> (Inl e, s2)
           | (Inr _, s2) \<Rightarrow>
               (case m_browser (snd s2) of
                  Some b \<Rightarrow>
                    (Inr (), (logger Info ''Browser closed'' (browser_close_all b (fst s2)),
                              (snd s2)\<lparr>m_browser := None\<rparr>))
                | None \<Rightarrow> (Inr (), s2))))"

definition cleanup :: "state \<Rightarrow> (exn + unit) \<times> state" where
  "cleanup s = closeBrowser s"

subsection \<open>Sequences of calls\<close>

text \<open>
  A caller is a sequence of calls on the manager. A call that throws leaves the state
  it reached; the caller goes on with the next call. \<open>run\<close> returns the exceptions
  thrown, in order, and the final state.
\<close>

datatype invocation =
    LaunchBrowser | CreateContext | CreatePage
  | GetPage | GetContext | GetBrowser
  | TakeScreenshot "string option" | SaveTrace string
  | ClosePage | CloseContext | CloseBrowser | Cleanup

definition thrown :: "(exn + 'a) \<times> state \<Rightarrow> exn option \<times> state" where
  "thrown r = (case fst r of Inl e \<Rightarrow> (Some e, snd r) | Inr _ \<Rightarrow> (None, snd r))"

fun invoke :: "env \<Rightarrow> invocation \<Rightarrow> state \<Rightarrow> exn option \<times> state" where
  "invoke E LaunchBrowser s = thrown (launchBrowser E s)"
| "invoke E CreateContext s = thrown (createContext E s)"
| "invoke E CreatePage s = thrown (createPage E s)"
| "invoke E GetPage s = thrown (getPage s, s)"
| "invoke E GetContext s = thrown (getContext s, s)"
| "invoke E GetBrowser s = thrown (getBrowser s, s)"
| "invoke E (TakeScreenshot name) s = thrown (takeScreenshot name s)"
| "invoke E (SaveTrace name) s = thrown (saveTrace E name s)"
| "invoke E ClosePage s = thrown (closePage s)"
| "invoke E CloseContext s = thrown (closeContext s)"
| "invoke E CloseBrowser s = thrown (closeBrowser s)"
| "invoke E Cleanup s = thrown (cleanup s)"

fun run :: "env \<Rightarrow> invocation list \<Rightarrow> state \<Rightarrow> exn list \<times> state" where
  "run E [] s = ([], s)"
| "run E (c # cs) s =
     (case invoke E c s of
        (None, s') \<Rightarrow> run E cs s'
      | (Some e, s') \<Rightarrow> (case run E cs s' of (es, s'') \<Rightarrow> (e # es, s'')))"


text \<open>
  The teardown order of the hooks and of \<open>closeBrowser\<close>: the page is closed before
  its context. \<open>page_first\<close> holds of a sequence of calls from a state when every
  \<open>closeContext\<close> in it is made with no page held.
\<close>

fun page_first :: "env \<Rightarrow> invocation list \<Rightarrow> state \<Rightarrow> bool" where
  "page_first E [] s = True"
| "page_first E (c # cs) s =
     ((c = CloseContext \<longrightarrow> m_page (snd s) = None) \<and> page_first E cs (snd (invoke E c s)))"

definition world0 :: "(string \<times> string) list \<Rightarrow> string \<Rightarrow> nat \<Rightarrow> nat \<Rightarrow> world" where
  "world0 fs dir process_pid date_now =
     \<lparr>next_id = 0, browsers = [], contexts = [], pages = [], files = fs, dirs = [],
       logs = [], cwd = dir, pid = process_pid, now = date_now\<rparr>"

section \<open>Scenario hooks (hooks.ts)\<close>

text \<open>
  \<^verbatim>\<open>
  interface HookWorldContext {
    _scenarioName?: string;
    _stepIndex?: number;
    attach(data: Buffer | string, mediaType: string): void | Promise<void>;
  }
  AfterStep(async function ({ pickleStep, result }) {
    const world = this as HookWorldContext;
    if (!ENV.SCREENSHOT_EACH_STEP) { return; }
    try {
      const stepIndex = (world._stepIndex || 0) + 1;
      world._stepIndex = stepIndex;
      const scenarioName = world._scenarioName || 'scenario';
      const stepName = pickleStep?.text || `step_${stepIndex}`;
      const status = result?.status || 'UNKNOWN';
      const sanitizedName = `${scenarioName}_${stepIndex}_${status}_${stepName}`
        .replace(/[^a-zA-Z0-9_-]+/g, '_').replace(/_+/g, '_').replace(/^_|_$/g, '');
      const screenshot = await PlaywrightManager.takeScreenshot(sanitizedName);
      await world.attach(screenshot, 'image/png');
      logger.info(`Step screenshot attached: ${stepIndex} - ${stepName}`);
    } catch (error) {
      logger.warn('Failed to capture step screenshot: ' + error);
    }
  });
  \<close>
  The cucumber world keeps what was attached to the report.
\<close>

record hook_world =
  scenarioName :: "string option"
  stepIndex :: "nat option"
  attached :: "(string \<times> string) list"



section \<open>Notions used in the statements\<close>

text \<open>A string is trimmed when it neither starts nor ends with white space.\<close>

definition trimmed :: "string \<Rightarrow> bool" where
  "trimmed t = (t = [] \<or> (\<not> is_js_space (hd t) \<and> \<not> is_js_space (last t)))"



text \<open>
  The handles the manager holds are live: each one that is not null names an object
  that is open in the world.
\<close>

definition handles_live :: "state \<Rightarrow> bool" where
  "handles_live s =
     ((case m_browser (snd s) of None \<Rightarrow> True | Some b \<Rightarrow> browser_live (fst s) b)
      \<and> (case m_context (snd s) of None \<Rightarrow> True | Some c \<Rightarrow> context_live (fst s) c)
      \<and> (case m_page (snd s) of None \<Rightarrow> True | Some p \<Rightarrow> page_live (fst s) p))"


definition ids_ok :: "world \<Rightarrow> bool" where
  "ids_ok w = list_all (\<lambda>x. cid x < next_id w) (contexts w)"




section \<open>Example inputs\<close>

text \<open>A page that scrolls, with five anchors in its footer; two of them hold no text.\<close>

definition scroll_ok :: "unit \<Rightarrow> exn + unit" where
  "scroll_ok pg = Inr pg"

definition icon_footer_texts :: "string list" where
  "icon_footer_texts = [''Home'', '' '', '' About us '', [], ''Terms'']"

definition icon_footer :: "unit \<Rightarrow> string \<Rightarrow> exn + string list" where
  "icon_footer pg loc = (if loc = ''footer a'' then Inr icon_footer_texts else Inr [])"

definition plain_footer_texts :: "string list" where
  "plain_footer_texts = [''Home'', '' Markets'', ''About us '', ''Help'', ''Terms'']"

definition plain_footer :: "unit \<Rightarrow> string \<Rightarrow> exn + string list" where
  "plain_footer pg loc = (if loc = ''footer a'' then Inr plain_footer_texts else Inr [])"

text \<open>A locator probe that rejects, and one that answers.\<close>

definition probe_rejects :: "unit \<Rightarrow> string \<Rightarrow> exn + bool" where
  "probe_rejects pg loc = Inl (Error ''Unexpected token while parsing selector'')"

definition probe_answers :: "unit \<Rightarrow> string \<Rightarrow> exn + bool" where
  "probe_answers pg loc = Inr (loc = ''footer'')"





text \<open>
  Two runs of the bootstrap against a site that cannot be reached: \<open>page.goto\<close> times
  out. In the first the state can still be saved; in the second saving rejects as well.
\<close>

definition goto_timeout :: exn where
  "goto_timeout = Error ''page.goto: Timeout 60000ms exceeded''"

definition node_goto_fails :: "unit node" where
  "node_goto_fails =
     \<lparr>path_resolve = (\<lambda>p. ''/repo/'' @ p),
      path_dirname = (\<lambda>p. ''/repo/storage''),
      fs_existsSync = (\<lambda>d w. True),
      fs_mkdirSync = (\<lambda>d w. (None, w)),
      chromium_launch = (\<lambda>w. (None, w)),
      browser_newContext = (\<lambda>w. (None, w)),
      context_newPage = (\<lambda>w. (None, w)),
      page_goto = (\<lambda>url t w. (Some goto_timeout, w)),
      locator_isVisible = (\<lambda>t c w. Inr False),
      locator_click = (\<lambda>c w. (None, w)),
      locator_fill = (\<lambda>c v w. (None, w)),
      page_waitForTimeout = (\<lambda>t w. (None, w)),
      page_waitForLoadState = (\<lambda>w. (None, w)),
      context_storageState = (\<lambda>p w. (None, w)),
      browser_close = (\<lambda>w. (None, w))\<rparr>"

definition disk_full :: exn where
  "disk_full = Error ''ENOSPC: no space left on device''"

definition node_save_fails :: "unit node" where
  "node_save_fails = node_goto_fails\<lparr>context_storageState := (\<lambda>p w. (Some disk_full, w))\<rparr>"

definition start_events :: "event list" where
  "start_events =
     [EvLog ''Starting global setup - performing login...'',
      EvLog ''   Base URL: https://trade.multibank.io/'',
      EvLog ''   Email: '',
      EvLaunch, EvNewContext, EvNewPage]"

text \<open>
  Processes: the environment is empty, or sets one variable. The manager starts with
  no handle, in a world with no browser and an empty working directory.
\<close>

definition env_default :: env where
  "env_default = ENV Map.empty"

definition env_firefox :: env where
  "env_firefox = ENV [''BROWSER'' \<mapsto> ''Firefox'']"

definition env_trace :: env where
  "env_trace = ENV [''TRACE_ON_FAILURE'' \<mapsto> ''true'']"

definition state0 :: state where
  "state0 = (world0 [] ''/repo'' 4242 1700000000000, manager0)"


text \<open>A manager with tracing enabled, after its first context was created.\<close>

definition state_tracing :: state where
  "state_tracing = snd (run env_trace [CreateContext] state0)"




section \<open>Properties\<close>

subsection \<open>Strings\<close>

lemma trim_is_prefix: "\<exists>zs. dropWhile P xs = rev (dropWhile P (rev (dropWhile P xs))) @ zs"
proof -
  let ?d = "dropWhile P xs"
  have "rev (dropWhile P (rev ?d)) @ rev (takeWhile P (rev ?d))
          = rev (takeWhile P (rev ?d) @ dropWhile P (rev ?d))"
    by (simp only: rev_append)
  also have "\<dots> = ?d" by (simp only: takeWhile_dropWhile_id rev_rev_ident)
  finally show ?thesis by metis
qed

lemma trim_empty_iff: "trim s = [] \<longleftrightarrow> (\<forall>c \<in> set s. is_js_space c)"
proof
  assume "trim s = []"
  then have "\<forall>c \<in> set (dropWhile is_js_space s). is_js_space c"
    by (simp add: trim_def)
  then have "dropWhile is_js_space s = []"
    using hd_dropWhile[of is_js_space s] by (cases "dropWhile is_js_space s") auto
  then show "\<forall>c \<in> set s. is_js_space c" by simp
next
  assume "\<forall>c \<in> set s. is_js_space c"
  then show "trim s = []" by (auto simp: trim_def dest: set_dropWhileD)
qed

lemma trim_trimmed: "trimmed (trim s)"
proof (cases "trim s = []")
  case True then show ?thesis by (simp add: trimmed_def)
next
  case False
  let ?d = "dropWhile is_js_space s"
  let ?e = "dropWhile is_js_space (rev ?d)"
  have e: "?e \<noteq> []" using False by (simp add: trim_def)
  have "last (trim s) = hd ?e" using e by (simp add: trim_def last_rev)
  moreover have "\<not> is_js_space (hd ?e)" using e by (simp add: hd_dropWhile)
  ultimately have 1: "\<not> is_js_space (last (trim s))" by simp
  obtain zs where zs: "?d = trim s @ zs"
    using trim_is_prefix[of is_js_space s] by (auto simp: trim_def)
  then have "hd ?d = hd (trim s)" using False by (metis hd_append2)
  moreover have "?d \<noteq> []" using zs False by auto
  then have "\<not> is_js_space (hd ?d)" by (simp add: hd_dropWhile)
  ultimately have 2: "\<not> is_js_space (hd (trim s))" by simp
  show ?thesis using 1 2 by (simp add: trimmed_def)
qed

lemma length_filter_eq_iff: "length (filter P xs) = length xs \<longleftrightarrow> (\<forall>x \<in> set xs. P x)"
  by (metis filter_id_conv length_filter_less less_irrefl filter_True)

subsection \<open>Footer links\<close>

text \<open>
  C8, as stated: on a page whose footer holds exactly 5 anchors, getFooterLinkTexts
  returns exactly 5 strings. It does not: the anchors without text (icons) are filtered
  out. Here five anchors give three strings.
\<close>

theorem C8_counterexample:
  "length icon_footer_texts = 5
   \<and> getFooterLinkTexts scroll_ok icon_footer () = Inr [''Home'', ''About us'', ''Terms'']"
  by (simp add: getFooterLinkTexts_def scrollToBottom_def getAllTexts_def scroll_ok_def
        icon_footer_def icon_footer_texts_def footerLinks_def trim_def is_js_space_def)

text \<open>
  C8, amended: when the scroll succeeds and the footer holds exactly 5 anchors,
  getFooterLinkTexts returns the trimmed texts of the anchors that have a character
  other than white space, in document order: at most 5 strings, each trimmed and
  non-empty, and exactly 5 when every anchor has such a character.
\<close>

theorem C8_footer_link_texts:
  assumes "evaluate_scroll pg = Inr pg'"
    and "allTextContents pg' footerLinks = Inr texts"
    and "length texts = 5"
  shows "\<exists>out. getFooterLinkTexts evaluate_scroll allTextContents pg = Inr out
      \<and> out = filter (\<lambda>t. t \<noteq> []) (map trim texts)
      \<and> length out \<le> 5
      \<and> (\<forall>t \<in> set out. t \<noteq> [] \<and> trimmed t)
      \<and> (length out = 5 \<longleftrightarrow> (\<forall>t \<in> set texts. \<exists>c \<in> set t. \<not> is_js_space c))"
proof -
  let ?out = "filter (\<lambda>t. t \<noteq> []) (map trim texts)"
  have r: "getFooterLinkTexts evaluate_scroll allTextContents pg = Inr ?out"
    using assms by (simp add: getFooterLinkTexts_def scrollToBottom_def getAllTexts_def)
  have l: "length ?out \<le> 5"
    using assms(3) length_filter_le[of _ "map trim texts"] by (metis length_map)
  have t: "\<forall>t \<in> set ?out. t \<noteq> [] \<and> trimmed t" by (auto simp: trim_trimmed)
  have "length ?out = 5 \<longleftrightarrow> (\<forall>t \<in> set (map trim texts). t \<noteq> [])"
    using assms(3) length_filter_eq_iff[of "\<lambda>t. t \<noteq> []" "map trim texts"] by simp
  also have "\<dots> \<longleftrightarrow> (\<forall>t \<in> set texts. \<exists>c \<in> set t. \<not> is_js_space c)"
    by (auto simp: trim_empty_iff)
  finally show ?thesis using r l t by blast
qed

theorem C8_footer_link_texts_witness:
  "scroll_ok () = Inr ()
   \<and> plain_footer () footerLinks = Inr plain_footer_texts
   \<and> length plain_footer_texts = 5
   \<and> (\<exists>out. getFooterLinkTexts scroll_ok plain_footer () = Inr out
        \<and> out = filter (\<lambda>t. t \<noteq> []) (map trim plain_footer_texts)
        \<and> length out \<le> 5
        \<and> (\<forall>t \<in> set out. t \<noteq> [] \<and> trimmed t)
        \<and> (length out = 5
             \<longleftrightarrow> (\<forall>t \<in> set plain_footer_texts. \<exists>c \<in> set t. \<not> is_js_space c)))"
proof -
  have 1: "scroll_ok () = Inr ()" by (simp add: scroll_ok_def)
  have 2: "plain_footer () footerLinks = Inr plain_footer_texts"
    by (simp add: plain_footer_def footerLinks_def)
  have 3: "length plain_footer_texts = 5" by (simp add: plain_footer_texts_def)
  show ?thesis
    using 1 2 3 C8_footer_link_texts [of scroll_ok "()" "()" plain_footer plain_footer_texts, OF 1 2 3]
    by simp
qed

subsection \<open>Element-state probes\<close>

text \<open>
  C9: isVisible and isEnabled are total. For every probe of the library, locator and
  page state they return a boolean and never reject: the answer of the probe when it
  answers, and false when it rejects.
\<close>

theorem C9_probes_total:
  "(\<exists>b. isVisible P pg l = Inr b) \<and> (\<exists>b. isEnabled Q pg l = Inr b)
   \<and> (\<forall>e. P pg l = Inl e \<longrightarrow> isVisible P pg l = Inr False)
   \<and> (\<forall>e. Q pg l = Inl e \<longrightarrow> isEnabled Q pg l = Inr False)
   \<and> (\<forall>b. P pg l = Inr b \<longrightarrow> isVisible P pg l = Inr b)
   \<and> (\<forall>b. Q pg l = Inr b \<longrightarrow> isEnabled Q pg l = Inr b)"
  by (auto simp: isVisible_def isEnabled_def split: sum.splits)

theorem C9_probes_total_witness:
  "probe_rejects () ''footer'' = Inl (Error ''Unexpected token while parsing selector'')
   \<and> isVisible probe_rejects () ''footer'' = Inr False
   \<and> probe_answers () ''footer'' = Inr True
   \<and> isEnabled probe_answers () ''footer'' = Inr True"
proof -
  have 1: "probe_rejects () ''footer'' = Inl (Error ''Unexpected token while parsing selector'')"
    by (simp add: probe_rejects_def)
  have 2: "probe_answers () ''footer'' = Inr True"
    by (simp add: probe_answers_def)
  from C9_probes_total [of probe_rejects "()" "''footer''" probe_answers] 1 2
  have "isVisible probe_rejects () ''footer'' = Inr False"
    and "isEnabled probe_answers () ''footer'' = Inr True"
    by blast+
  with 1 2 show ?thesis by simp
qed

subsection \<open>The selector loop\<close>









subsection \<open>The bootstrap: catch and finally\<close>

lemma finallyBlock_eq:
  "finallyBlock N s =
     (case browser_close N (fst s) of
        (closed, w3) \<Rightarrow>
          (closed, (w3, snd s @ [EvBrowserClose]
                        @ (case closed of None \<Rightarrow> [EvLog ''Global setup completed'']
                                        | Some e \<Rightarrow> []))))"
  by (simp add: finallyBlock_def call_def console_log_def split: prod.splits option.splits)

lemma catchBlock_eq:
  "catchBlock N storagePath error s =
     (case context_storageState N storagePath (fst s) of
        (saved, w2) \<Rightarrow>
          (None, (w2, snd s @ [EvError ''Global setup failed:'' error, EvStorageState storagePath]
                      @ (case saved of
                           None \<Rightarrow> [EvLog (''Partial storage state saved to: '' @ storagePath)]
                         | Some saveError \<Rightarrow>
                             [EvError ''Failed to save storage state:'' saveError]))))"
  by (simp add: catchBlock_def call_def console_log_def console_error_def
        split: prod.splits option.splits)

text \<open>
  C3, as stated: an exception of the login flow is propagated to the caller after the
  state was persisted. It is not: the \<^verbatim>\<open>catch\<close> block logs it and does not throw it
  again. Here \<open>page.goto\<close> times out and globalSetup resolves.
\<close>

theorem C3_counterexample:
  "page_goto node_goto_fails ''https://trade.multibank.io/'' 60000 () = (Some goto_timeout, ())
   \<and> globalSetup node_goto_fails Map.empty ()
       = (None, ((), start_events
            @ [EvGoto ''https://trade.multibank.io/'',
               EvError ''Global setup failed:'' goto_timeout,
               EvStorageState ''/repo/storage/auth.json'',
               EvLog ''Partial storage state saved to: /repo/storage/auth.json'',
               EvBrowserClose,
               EvLog ''Global setup completed'']))"
  by (simp add: globalSetup_def node_goto_fails_def or_default_def call_def console_log_def Let_def
        tryCatchFinally_def tryBlock_def catchBlock_eq finallyBlock_eq start_events_def)

text \<open>
  C3, amended: if any statement inside the \<^verbatim>\<open>try\<close> block of the login flow throws, the
  bootstrapper logs the exception, still calls \<open>storageState\<close> to persist the context
  state, logs (and does not throw) a failure of that call, and then closes the browser;
  the exception of the flow is not thrown again: globalSetup resolves, and can only
  reject with what \<open>browser.close()\<close> itself rejects with. On every exit path of the
  \<^verbatim>\<open>try\<close> statement, success or failure, \<open>browser.close()\<close> is called.
\<close>

theorem C3_try_catch_finally:
  "(\<forall>error s1. run_steps (tryBlock N baseUrl email password storagePath) s = (Some error, s1) \<longrightarrow>
      (case context_storageState N storagePath (fst s1) of
         (saved, w2) \<Rightarrow>
           (case browser_close N w2 of
              (closed, w3) \<Rightarrow>
                tryCatchFinally N baseUrl email password storagePath s
                  = (closed,
                     (w3, snd s1
                          @ [EvError ''Global setup failed:'' error, EvStorageState storagePath]
                          @ (case saved of
                               None \<Rightarrow> [EvLog (''Partial storage state saved to: '' @ storagePath)]
                             | Some saveError \<Rightarrow>
                                 [EvError ''Failed to save storage state:'' saveError])
                          @ [EvBrowserClose]
                          @ (case closed of None \<Rightarrow> [EvLog ''Global setup completed'']
                                          | Some e \<Rightarrow> []))))))
   \<and> (\<forall>s1. run_steps (tryBlock N baseUrl email password storagePath) s = (None, s1) \<longrightarrow>
         (case browser_close N (fst s1) of
            (closed, w3) \<Rightarrow>
              tryCatchFinally N baseUrl email password storagePath s
                = (closed,
                   (w3, snd s1 @ [EvBrowserClose]
                        @ (case closed of None \<Rightarrow> [EvLog ''Global setup completed'']
                                        | Some e \<Rightarrow> [])))))
   \<and> EvBrowserClose \<in> set (snd (snd (tryCatchFinally N baseUrl email password storagePath s)))"
proof (intro conjI allI impI)
  fix error s1
  assume "run_steps (tryBlock N baseUrl email password storagePath) s = (Some error, s1)"
  then show "case context_storageState N storagePath (fst s1) of
         (saved, w2) \<Rightarrow>
           (case browser_close N w2 of
              (closed, w3) \<Rightarrow>
                tryCatchFinally N baseUrl email password storagePath s
                  = (closed,
                     (w3, snd s1
                          @ [EvError ''Global setup failed:'' error, EvStorageState storagePath]
                          @ (case saved of
                               None \<Rightarrow> [EvLog (''Partial storage state saved to: '' @ storagePath)]
                             | Some saveError \<Rightarrow>
                                 [EvError ''Failed to save storage state:'' saveError])
                          @ [EvBrowserClose]
                          @ (case closed of None \<Rightarrow> [EvLog ''Global setup completed'']
                                          | Some e \<Rightarrow> []))))"
    by (simp add: tryCatchFinally_def catchBlock_eq finallyBlock_eq
          split: prod.splits option.splits)
next
  fix s1
  assume "run_steps (tryBlock N baseUrl email password storagePath) s = (None, s1)"
  then show "case browser_close N (fst s1) of
            (closed, w3) \<Rightarrow>
              tryCatchFinally N baseUrl email password storagePath s
                = (closed,
                   (w3, snd s1 @ [EvBrowserClose]
                        @ (case closed of None \<Rightarrow> [EvLog ''Global setup completed'']
                                        | Some e \<Rightarrow> [])))"
    by (simp add: tryCatchFinally_def finallyBlock_eq split: prod.splits option.splits)
next
  show "EvBrowserClose \<in> set (snd (snd (tryCatchFinally N baseUrl email password storagePath s)))"
    by (simp add: tryCatchFinally_def catchBlock_eq finallyBlock_eq
          split: prod.splits option.splits)
qed

theorem C3_try_catch_finally_witness:
  "run_steps (tryBlock node_save_fails ''https://trade.multibank.io/'' [] []
                ''/repo/storage/auth.json'') ((), start_events)
     = (Some goto_timeout, ((), start_events @ [EvGoto ''https://trade.multibank.io/'']))
   \<and> tryCatchFinally node_save_fails ''https://trade.multibank.io/'' [] []
         ''/repo/storage/auth.json'' ((), start_events)
       = (None, ((), start_events
            @ [EvGoto ''https://trade.multibank.io/'',
               EvError ''Global setup failed:'' goto_timeout,
               EvStorageState ''/repo/storage/auth.json'',
               EvError ''Failed to save storage state:'' disk_full,
               EvBrowserClose,
               EvLog ''Global setup completed'']))"
proof -
  have h: "run_steps (tryBlock node_save_fails ''https://trade.multibank.io/'' [] []
                ''/repo/storage/auth.json'') ((), start_events)
     = (Some goto_timeout, ((), start_events @ [EvGoto ''https://trade.multibank.io/'']))"
    by (simp add: tryBlock_def node_save_fails_def node_goto_fails_def call_def)
  from C3_try_catch_finally [of node_save_fails "''https://trade.multibank.io/''" "[]" "[]"
        "''/repo/storage/auth.json''" "((), start_events)"] h
  have "case context_storageState node_save_fails ''/repo/storage/auth.json'' () of
         (saved, w2) \<Rightarrow>
           (case browser_close node_save_fails w2 of
              (closed, w3) \<Rightarrow>
                tryCatchFinally node_save_fails ''https://trade.multibank.io/'' [] []
                    ''/repo/storage/auth.json'' ((), start_events)
                  = (closed,
                     (w3, (start_events @ [EvGoto ''https://trade.multibank.io/''])
                          @ [EvError ''Global setup failed:'' goto_timeout,
                             EvStorageState ''/repo/storage/auth.json'']
                          @ (case saved of
                               None \<Rightarrow> [EvLog (''Partial storage state saved to: ''
                                                 @ ''/repo/storage/auth.json'')]
                             | Some saveError \<Rightarrow>
                                 [EvError ''Failed to save storage state:'' saveError])
                          @ [EvBrowserClose]
                          @ (case closed of None \<Rightarrow> [EvLog ''Global setup completed'']
                                          | Some e \<Rightarrow> []))))"
    by fastforce
  then have "tryCatchFinally node_save_fails ''https://trade.multibank.io/'' [] []
         ''/repo/storage/auth.json'' ((), start_events)
       = (None, ((), start_events
            @ [EvGoto ''https://trade.multibank.io/'',
               EvError ''Global setup failed:'' goto_timeout,
               EvStorageState ''/repo/storage/auth.json'',
               EvError ''Failed to save storage state:'' disk_full,
               EvBrowserClose,
               EvLog ''Global setup completed'']))"
    by (simp add: node_save_fails_def node_goto_fails_def)
  with h show ?thesis by simp
qed

subsection \<open>Launching the browser\<close>

text \<open>
  C2: for every value of \<open>BROWSER\<close>, a call of launchBrowser while a browser handle is
  held returns that handle and changes nothing, neither the manager nor the world: no
  browser is launched. A first call launches the engine the value names (firefox,
  webkit, and chromium for every other value) and stores the handle, so a second call
  in succession returns the same handle.
\<close>

theorem C2_launch_idempotent:
  "(\<forall>b. m_browser (snd s) = Some b \<longrightarrow> launchBrowser E s = (Inr b, s))
   \<and> (case launchBrowser E s of
         (r1, s1) \<Rightarrow> (\<exists>b. r1 = Inr b \<and> m_browser (snd s1) = Some b)
                     \<and> launchBrowser E s1 = (r1, s1))
   \<and> (m_browser (snd s) = None \<longrightarrow>
         browsers (fst (snd (launchBrowser E s)))
           = (next_id (fst s), engine_of (toLowerCase (BROWSER E)),
              \<lparr>headless = HEADLESS E, slowMo = SLOW_MO E\<rparr>) # browsers (fst s))
   \<and> (engine_of t = Firefox \<longleftrightarrow> t = ''firefox'')
   \<and> (engine_of t = Webkit \<longleftrightarrow> t = ''webkit'')
   \<and> (engine_of t = Chromium \<longleftrightarrow> t \<noteq> ''firefox'' \<and> t \<noteq> ''webkit'')"
  by (auto simp: launchBrowser_def launch_def logger_def engine_of_def Let_def
        split: option.splits prod.splits)

theorem C2_launch_idempotent_witness:
  "m_browser (snd state0) = None
   \<and> launchBrowser env_firefox state0
       = (Inr 0, snd (launchBrowser env_firefox state0))
   \<and> m_browser (snd (snd (launchBrowser env_firefox state0))) = Some 0
   \<and> launchBrowser env_firefox (snd (launchBrowser env_firefox state0))
       = (Inr 0, snd (launchBrowser env_firefox state0))
   \<and> map (\<lambda>b. fst (snd b)) (browsers (fst (snd (launchBrowser env_firefox state0)))) = [Firefox]"
proof -
  have 0: "m_browser (snd state0) = None"
    by (simp add: state0_def manager0_def)
  have 1: "launchBrowser env_firefox state0 = (Inr 0, snd (launchBrowser env_firefox state0))"
    by (simp add: launchBrowser_def state0_def manager0_def world0_def launch_def logger_def
          Let_def)
  have 2: "m_browser (snd (snd (launchBrowser env_firefox state0))) = Some 0"
    by (simp add: launchBrowser_def state0_def manager0_def world0_def launch_def logger_def
          Let_def)
  from C2_launch_idempotent [of "snd (launchBrowser env_firefox state0)" env_firefox] 2
  have 3: "launchBrowser env_firefox (snd (launchBrowser env_firefox state0))
       = (Inr 0, snd (launchBrowser env_firefox state0))"
    by blast
  have 4: "map (\<lambda>b. fst (snd b)) (browsers (fst (snd (launchBrowser env_firefox state0)))) = [Firefox]"
    by (simp add: launchBrowser_def state0_def manager0_def world0_def launch_def logger_def
          Let_def env_firefox_def ENV_def or_default_def toLowerCase_def lower_char_def
          engine_of_def)
  from 0 1 2 3 4 show ?thesis by blast
qed

subsection \<open>Teardown\<close>








lemma closeBrowser_nulls: "snd (snd (closeBrowser s)) = (snd s)\<lparr>m_browser := None, m_context := None, m_page := None\<rparr>"
  by (simp add: closeBrowser_def closePage_def closeContext_def split: option.splits)




subsection \<open>Live handles\<close>

lemma live_logger [simp]:
  "browser_live (logger l msg w) = browser_live w"
  "context_live (logger l msg w) = context_live w"
  "page_live (logger l msg w) = page_live w"
  by (simp_all add: fun_eq_iff logger_def browser_live_def context_live_def page_live_def)

lemma live_mkdirSync [simp]:
  "browser_live (mkdirSync d w) = browser_live w"
  "context_live (mkdirSync d w) = context_live w"
  "page_live (mkdirSync d w) = page_live w"
  by (simp_all add: fun_eq_iff mkdirSync_def browser_live_def context_live_def page_live_def)

lemma live_writeFileSync [simp]:
  "browser_live (writeFileSync p dat w) = browser_live w"
  "context_live (writeFileSync p dat w) = context_live w"
  "page_live (writeFileSync p dat w) = page_live w"
  by (simp_all add: fun_eq_iff writeFileSync_def browser_live_def context_live_def page_live_def)

lemma live_update_context [simp]:
  "browser_live (update_context c f w) = browser_live w"
  "page_live (update_context c f w) = page_live w"
  by (simp_all add: fun_eq_iff update_context_def browser_live_def page_live_def)

lemma live_update_context_cid [simp]:
  assumes "\<And>x. cid (f x) = cid x"
  shows "context_live (update_context c f w) = context_live w"
proof -
  have "(\<lambda>x. cid (if cid x = c then f x else x)) = cid"
    using assms by auto
  then show ?thesis
    by (simp add: fun_eq_iff update_context_def context_live_def)
qed

lemma live_setTimeouts [simp]:
  "browser_live (setDefaultTimeout c t w) = browser_live w"
  "context_live (setDefaultTimeout c t w) = context_live w"
  "page_live (setDefaultTimeout c t w) = page_live w"
  "browser_live (setDefaultNavigationTimeout c t w) = browser_live w"
  "context_live (setDefaultNavigationTimeout c t w) = context_live w"
  "page_live (setDefaultNavigationTimeout c t w) = page_live w"
  by (simp_all add: setDefaultTimeout_def setDefaultNavigationTimeout_def)

lemma live_launch:
  "launch eng opts w = (b, w') \<Longrightarrow>
     browser_live w' b \<and> (\<forall>x. browser_live w x \<longrightarrow> browser_live w' x)
     \<and> context_live w' = context_live w \<and> page_live w' = page_live w"
  by (auto simp: launch_def browser_live_def context_live_def page_live_def fun_eq_iff)

lemma live_newContext:
  "newContext b opts w = Inr (c, w') \<Longrightarrow>
     context_live w' c \<and> (\<forall>x. context_live w x \<longrightarrow> context_live w' x)
     \<and> browser_live w' = browser_live w \<and> page_live w' = page_live w"
  by (auto simp: newContext_def browser_live_def context_live_def page_live_def fun_eq_iff
        split: if_splits option.splits)

lemma live_newPage:
  "newPage c w = Inr (p, w') \<Longrightarrow>
     page_live w' p \<and> (\<forall>x. page_live w x \<longrightarrow> page_live w' x)
     \<and> browser_live w' = browser_live w \<and> context_live w' = context_live w"
  by (auto simp: newPage_def browser_live_def context_live_def page_live_def fun_eq_iff
        split: if_splits)

lemma live_tracing_start:
  "tracing_start c w = Inr w' \<Longrightarrow>
     browser_live w' = browser_live w \<and> context_live w' = context_live w
     \<and> page_live w' = page_live w"
  by (auto simp: tracing_start_def split: if_splits)

lemma live_tracing_stop:
  "tracing_stop c p w = Inr w' \<Longrightarrow>
     browser_live w' = browser_live w \<and> context_live w' = context_live w
     \<and> page_live w' = page_live w"
  by (auto simp: tracing_stop_def split: if_splits)

lemma live_page_close:
  "browser_live (page_close p w) = browser_live w"
  "context_live (page_close p w) = context_live w"
  by (simp_all add: fun_eq_iff page_close_def browser_live_def context_live_def)

lemma live_context_close:
  "browser_live (context_close c w) = browser_live w"
  by (simp_all add: fun_eq_iff context_close_def browser_live_def)

lemma handles_live_iff:
  "handles_live s \<longleftrightarrow>
     (\<forall>b. m_browser (snd s) = Some b \<longrightarrow> browser_live (fst s) b)
     \<and> (\<forall>c. m_context (snd s) = Some c \<longrightarrow> context_live (fst s) c)
     \<and> (\<forall>p. m_page (snd s) = Some p \<longrightarrow> page_live (fst s) p)"
  by (simp add: handles_live_def split: option.splits)

lemma launchBrowser_live:
  assumes "handles_live s"
  shows "handles_live (snd (launchBrowser E s))" and "m_browser (snd (snd (launchBrowser E s))) \<noteq> None"
    and "fst (launchBrowser E s) \<noteq> Inl e"
    and "m_context (snd (snd (launchBrowser E s))) = m_context (snd s)"
    and "m_page (snd (snd (launchBrowser E s))) = m_page (snd s)"
  using assms
  by (auto simp: launchBrowser_def handles_live_def Let_def launch_def browser_live_def
        context_live_def page_live_def logger_def split: option.splits prod.splits)


lemma live_buildContextOptions [simp]:
  "browser_live (snd (buildContextOptions E w)) = browser_live w"
  "context_live (snd (buildContextOptions E w)) = context_live w"
  "page_live (snd (buildContextOptions E w)) = page_live w"
  by (simp_all add: buildContextOptions_def Let_def)

lemma createContext_live:
  assumes "handles_live s"
  shows "handles_live (snd (createContext E s))"
    and "m_page (snd (snd (createContext E s))) = m_page (snd s)"
proof -
  define r1 where "r1 = (if m_browser (snd s) = None then launchBrowser E s else (Inr 0, s))"
  have l1: "handles_live (snd r1)" and p1: "m_page (snd (snd r1)) = m_page (snd s)"
    using assms launchBrowser_live(1,5) [OF assms, of E] by (auto simp: r1_def)
  obtain x s1 where r1: "r1 = (Inr x, s1)"
    using launchBrowser_live(3) [OF assms, of E]
    by (cases r1; cases "fst r1") (auto simp: r1_def split: if_splits)
  obtain opts w2 where o: "buildContextOptions E (fst s1) = (opts, w2)"
    by (cases "buildContextOptions E (fst s1)") auto
  have w2: "browser_live w2 = browser_live (fst s1)" "context_live w2 = context_live (fst s1)"
    "page_live w2 = page_live (fst s1)"
    using live_buildContextOptions [of E "fst s1"] o by simp_all
  have c: "createContext E s =
     (case m_browser (snd s1) of
        None \<Rightarrow> (Inl (Error ''TypeError: Cannot read properties of null''), (w2, snd s1))
      | Some b \<Rightarrow>
          (case newContext b opts w2 of
             Inl e \<Rightarrow> (Inl e, (w2, snd s1))
           | Inr (c, w3) \<Rightarrow>
               (let m = (snd s1)\<lparr>m_context := Some c\<rparr>;
                    w4 = setDefaultNavigationTimeout c (NAVIGATION_TIMEOUT E)
                           (setDefaultTimeout c (DEFAULT_TIMEOUT E) w3)
                in if TRACE_ON_FAILURE E
                   then (case tracing_start c w4 of
                           Inl e \<Rightarrow> (Inl e, (w4, m))
                         | Inr w5 \<Rightarrow> (Inr c, (w5, m)))
                   else (Inr c, (w4, m)))))"
    unfolding createContext_def r1_def [symmetric] r1 by (simp add: o)
  have l1': "handles_live s1" and p1': "m_page (snd s1) = m_page (snd s)"
    using l1 p1 r1 by simp_all
  have "handles_live (snd (createContext E s)) \<and> m_page (snd (snd (createContext E s))) = m_page (snd s)"
  proof (cases "m_browser (snd s1)")
    case None
    then show ?thesis using l1' p1' w2 by (simp add: c handles_live_iff)
  next
    case (Some b)
    show ?thesis
    proof (cases "newContext b opts w2")
      case (Inl e)
      then show ?thesis using Some l1' p1' w2 by (simp add: c handles_live_iff)
    next
      case (Inr cw)
      obtain cc w3 where cw: "cw = (cc, w3)" by (cases cw) auto
      note n = live_newContext [OF Inr [unfolded cw]]
      let ?w4 = "setDefaultNavigationTimeout cc (NAVIGATION_TIMEOUT E)
                   (setDefaultTimeout cc (DEFAULT_TIMEOUT E) w3)"
      have w4: "browser_live ?w4 = browser_live (fst s1)" "context_live ?w4 cc"
        "page_live ?w4 = page_live (fst s1)"
        using n w2 by simp_all
      have base: "handles_live (?w4, (snd s1)\<lparr>m_context := Some cc\<rparr>)"
        using l1' w4 by (simp add: handles_live_iff)
      show ?thesis
      proof (cases "TRACE_ON_FAILURE E")
        case False
        then show ?thesis using Some Inr cw base p1' by (simp add: c Let_def)
      next
        case True
        show ?thesis
        proof (cases "tracing_start cc ?w4")
          case (Inl e)
          then show ?thesis using True Some Inr cw base p1' by (simp add: c Let_def)
        next
          case (Inr w5)
          note t = live_tracing_start [OF Inr]
          have "handles_live (w5, (snd s1)\<lparr>m_context := Some cc\<rparr>)"
            using base t by (simp add: handles_live_iff)
          then show ?thesis using True Some \<open>newContext b opts w2 = Inr cw\<close> cw Inr p1'
            by (simp add: c Let_def)
        qed
      qed
    qed
  qed
  then show "handles_live (snd (createContext E s))"
    and "m_page (snd (snd (createContext E s))) = m_page (snd s)" by simp_all
qed

lemma createPage_live:
  assumes "handles_live s"
  shows "handles_live (snd (createPage E s))"
proof -
  define r1 where "r1 = (if m_context (snd s) = None then createContext E s else (Inr 0, s))"
  have l1: "handles_live (snd r1)"
    using assms createContext_live(1) [OF assms, of E] by (auto simp: r1_def)
  obtain r s1 where r1: "r1 = (r, s1)" by (cases r1) auto
  have c: "createPage E s =
     (case r of
        Inl e \<Rightarrow> (Inl e, s1)
      | Inr x \<Rightarrow>
          (case m_context (snd s1) of
             None \<Rightarrow> (Inl (Error ''TypeError: Cannot read properties of null''), s1)
           | Some c \<Rightarrow>
               (case newPage c (fst s1) of
                  Inl e \<Rightarrow> (Inl e, s1)
                | Inr (p, w2) \<Rightarrow>
                    (Inr p, (logger Info ''New page created'' w2, (snd s1)\<lparr>m_page := Some p\<rparr>)))))"
    unfolding createPage_def r1_def [symmetric] r1 by (simp split: sum.splits)
  have l1': "handles_live s1" using l1 r1 by simp
  show ?thesis
  proof (cases r)
    case (Inl e)
    then show ?thesis using l1' by (simp add: c)
  next
    case (Inr x)
    show ?thesis
    proof (cases "m_context (snd s1)")
      case None
      then show ?thesis using Inr l1' by (simp add: c)
    next
      case (Some cc)
      show ?thesis
      proof (cases "newPage cc (fst s1)")
        case (Inl e)
        then show ?thesis using Inr Some l1' by (simp add: c)
      next
        case n: (Inr pw)
        obtain p w2 where pw: "pw = (p, w2)" by (cases pw) auto
        note l = live_newPage [OF n [unfolded pw]]
        have "handles_live (logger Info ''New page created'' w2, (snd s1)\<lparr>m_page := Some p\<rparr>)"
          using l1' l by (simp add: handles_live_iff)
        then show ?thesis using Inr Some n pw by (simp add: c)
      qed
    qed
  qed
qed

lemma takeScreenshot_live:
  assumes "handles_live s"
  shows "handles_live (snd (takeScreenshot name s))"
  using assms
  by (auto simp: takeScreenshot_def handles_live_iff Let_def
        split: option.splits sum.splits)

lemma saveTrace_live:
  assumes "handles_live s"
  shows "handles_live (snd (saveTrace E name s))"
proof (cases "m_context (snd s)")
  case None
  then show ?thesis using assms by (simp add: saveTrace_def)
next
  case (Some c)
  show ?thesis
  proof (cases "TRACE_ON_FAILURE E")
    case False
    then show ?thesis using Some assms by (simp add: saveTrace_def)
  next
    case True
    let ?w1 = "if \<not> existsSync ''test-results/traces'' (fst s)
               then mkdirSync ''test-results/traces'' (fst s) else fst s"
    have w1: "handles_live (?w1, snd s)" using assms by (simp add: handles_live_iff)
    show ?thesis
    proof (cases "tracing_stop c (tracePath name (pid ?w1) (now ?w1)) ?w1")
      case (Inl e)
      then show ?thesis using True Some w1 by (simp add: saveTrace_def Let_def)
    next
      case (Inr w2)
      note t = live_tracing_stop [OF Inr]
      have "handles_live (logger Info (''Trace saved: '' @ tracePath name (pid ?w1) (now ?w1)) w2,
                          snd s)"
        using w1 t by (simp add: handles_live_iff)
      then show ?thesis using True Some Inr by (simp add: saveTrace_def Let_def)
    qed
  qed
qed

lemma closePage_live:
  assumes "handles_live s"
  shows "handles_live (snd (closePage s))"
  using assms
  by (auto simp: closePage_def handles_live_iff live_page_close split: option.splits)

lemma closeContext_live:
  assumes "handles_live s" and "m_page (snd s) = None"
  shows "handles_live (snd (closeContext s))"
  using assms
  by (auto simp: closeContext_def handles_live_iff live_context_close split: option.splits)

lemma closeBrowser_live: "handles_live (snd (closeBrowser s))"
  using closeBrowser_nulls [of s] by (simp add: handles_live_iff)

lemma invoke_live:
  assumes "handles_live s" and "c = CloseContext \<longrightarrow> m_page (snd s) = None"
  shows "handles_live (snd (invoke E c s))"
  using assms launchBrowser_live(1) [of s E] createContext_live(1) [of s E] createPage_live [of s E]
    takeScreenshot_live [of s] saveTrace_live [of s E] closePage_live [of s]
    closeContext_live [of s] closeBrowser_live [of s]
  by (cases c) (simp_all add: thrown_def cleanup_def split: sum.splits)

lemma run_live:
  "handles_live s \<Longrightarrow> page_first E cs s \<Longrightarrow> handles_live (snd (run E cs s))"
proof (induction cs arbitrary: s)
  case Nil
  then show ?case by simp
next
  case (Cons c cs)
  have 1: "handles_live (snd (invoke E c s))"
    using Cons.prems by (intro invoke_live) simp_all
  have 2: "page_first E cs (snd (invoke E c s))" using Cons.prems by simp
  have "handles_live (snd (run E cs (snd (invoke E c s))))" using Cons.IH [OF 1 2] .
  then show ?case by (cases "invoke E c s") (auto split: option.splits prod.splits)
qed

text \<open>
  C5, as stated: the getters never return a stale handle. getPage does, after
  closeContext was called with the page still open: closing the context closes its
  page, and only \<open>this.context\<close> is set to null. Here createPage opens browser 0,
  context 1 and page 2; after closeContext, getPage still returns page 2, which is
  closed.
\<close>

theorem C5_counterexample:
  "getPage (snd (run env_default [CreatePage] state0)) = Inr 2
   \<and> page_live (fst (snd (run env_default [CreatePage] state0))) 2
   \<and> getPage (snd (run env_default [CreatePage, CloseContext] state0)) = Inr 2
   \<and> \<not> page_live (fst (snd (run env_default [CreatePage, CloseContext] state0))) 2"
  by (simp add: state0_def manager0_def world0_def thrown_def createPage_def
        createContext_def launchBrowser_def launch_def logger_def newContext_def newPage_def
        existsSync_def resolve_def setDefaultTimeout_def setDefaultNavigationTimeout_def
        update_context_def browser_live_def context_live_def page_live_def tracing_start_def
        is_tracing_def buildContextOptions_def env_default_def ENV_def or_default_def Let_def
        getPage_def closeContext_def context_close_def)

text \<open>
  C5, amended: getPage, getContext and getBrowser throw their "not initialized" error
  exactly when the corresponding field is null (never created, or set to null by its
  close call), and return the handle the field holds otherwise, changing nothing. The
  handle returned is a live one in every state reached from the start by calls in which
  closeContext is only made when no page is held (the order closePage, closeContext of
  the hooks and of closeBrowser).
\<close>

theorem C5_getters:
  "((\<exists>e. getPage s = Inl e) \<longleftrightarrow> m_page (snd s) = None)
   \<and> ((\<exists>e. getContext s = Inl e) \<longleftrightarrow> m_context (snd s) = None)
   \<and> ((\<exists>e. getBrowser s = Inl e) \<longleftrightarrow> m_browser (snd s) = None)
   \<and> (\<forall>e. getPage s = Inl e \<longrightarrow>
          e = Error ''Page has not been initialized. Call createPage() first.'')
   \<and> (\<forall>e. getContext s = Inl e \<longrightarrow>
          e = Error ''Context has not been initialized. Call createContext() first.'')
   \<and> (\<forall>e. getBrowser s = Inl e \<longrightarrow>
          e = Error ''Browser has not been initialized. Call launchBrowser() first.'')
   \<and> (\<forall>p. m_page (snd s) = Some p \<longrightarrow> getPage s = Inr p)
   \<and> (\<forall>c. m_context (snd s) = Some c \<longrightarrow> getContext s = Inr c)
   \<and> (\<forall>b. m_browser (snd s) = Some b \<longrightarrow> getBrowser s = Inr b)
   \<and> (\<exists>e. getPage (snd (closePage s)) = Inl e)
   \<and> (\<exists>e. getContext (snd (closeContext s)) = Inl e)
   \<and> (\<exists>e. getBrowser (snd (closeBrowser s)) = Inl e)
   \<and> (s = snd (run E cs (world0 fs dir process_pid date_now, manager0))
        \<and> page_first E cs (world0 fs dir process_pid date_now, manager0) \<longrightarrow>
         (\<forall>p. getPage s = Inr p \<longrightarrow> page_live (fst s) p)
         \<and> (\<forall>c. getContext s = Inr c \<longrightarrow> context_live (fst s) c)
         \<and> (\<forall>b. getBrowser s = Inr b \<longrightarrow> browser_live (fst s) b))"
proof -
  have g1: "(\<exists>e. getPage s = Inl e) \<longleftrightarrow> m_page (snd s) = None"
    by (simp add: getPage_def split: option.splits)
  have g2: "(\<exists>e. getContext s = Inl e) \<longleftrightarrow> m_context (snd s) = None"
    by (simp add: getContext_def split: option.splits)
  have g3: "(\<exists>e. getBrowser s = Inl e) \<longleftrightarrow> m_browser (snd s) = None"
    by (simp add: getBrowser_def split: option.splits)
  have g4: "\<forall>e. getPage s = Inl e \<longrightarrow>
          e = Error ''Page has not been initialized. Call createPage() first.''"
    by (simp add: getPage_def split: option.splits)
  have g5: "\<forall>e. getContext s = Inl e \<longrightarrow>
          e = Error ''Context has not been initialized. Call createContext() first.''"
    by (simp add: getContext_def split: option.splits)
  have g6: "\<forall>e. getBrowser s = Inl e \<longrightarrow>
          e = Error ''Browser has not been initialized. Call launchBrowser() first.''"
    by (simp add: getBrowser_def split: option.splits)
  have g7: "\<forall>p. m_page (snd s) = Some p \<longrightarrow> getPage s = Inr p"
    by (simp add: getPage_def)
  have g8: "\<forall>c. m_context (snd s) = Some c \<longrightarrow> getContext s = Inr c"
    by (simp add: getContext_def)
  have g9: "\<forall>b. m_browser (snd s) = Some b \<longrightarrow> getBrowser s = Inr b"
    by (simp add: getBrowser_def)
  have c1: "\<exists>e. getPage (snd (closePage s)) = Inl e"
    by (simp add: getPage_def closePage_def split: option.splits)
  have c2: "\<exists>e. getContext (snd (closeContext s)) = Inl e"
    by (simp add: getContext_def closeContext_def split: option.splits)
  have c3: "\<exists>e. getBrowser (snd (closeBrowser s)) = Inl e"
    using closeBrowser_nulls [of s] by (simp add: getBrowser_def)
  have l: "s = snd (run E cs (world0 fs dir process_pid date_now, manager0))
        \<and> page_first E cs (world0 fs dir process_pid date_now, manager0) \<longrightarrow>
         (\<forall>p. getPage s = Inr p \<longrightarrow> page_live (fst s) p)
         \<and> (\<forall>c. getContext s = Inr c \<longrightarrow> context_live (fst s) c)
         \<and> (\<forall>b. getBrowser s = Inr b \<longrightarrow> browser_live (fst s) b)"
  proof
    assume a: "s = snd (run E cs (world0 fs dir process_pid date_now, manager0))
        \<and> page_first E cs (world0 fs dir process_pid date_now, manager0)"
    have "handles_live (world0 fs dir process_pid date_now, manager0)"
      by (simp add: handles_live_def manager0_def)
    then have "handles_live s" using a run_live by simp
    then show "(\<forall>p. getPage s = Inr p \<longrightarrow> page_live (fst s) p)
         \<and> (\<forall>c. getContext s = Inr c \<longrightarrow> context_live (fst s) c)
         \<and> (\<forall>b. getBrowser s = Inr b \<longrightarrow> browser_live (fst s) b)"
      by (simp add: handles_live_iff getPage_def getContext_def getBrowser_def
            split: option.splits)
  qed
  show ?thesis
    by (intro conjI) (rule g1 g2 g3 g4 g5 g6 g7 g8 g9 c1 c2 c3 l)+
qed

theorem C5_getters_witness:
  "page_first env_default [CreatePage, ClosePage, CloseContext, CreatePage] state0
   \<and> getPage (snd (run env_default [CreatePage, ClosePage, CloseContext, CreatePage] state0))
       = Inr 4
   \<and> page_live (fst (snd (run env_default [CreatePage, ClosePage, CloseContext, CreatePage]
                            state0))) 4"
proof -
  let ?cs = "[CreatePage, ClosePage, CloseContext, CreatePage]"
  let ?s0 = "(world0 [] ''/repo'' 4242 1700000000000, manager0)"
  have 1: "page_first env_default ?cs ?s0"
    by (simp add: manager0_def world0_def thrown_def createPage_def
          createContext_def launchBrowser_def launch_def logger_def newContext_def newPage_def
          existsSync_def resolve_def setDefaultTimeout_def setDefaultNavigationTimeout_def
          update_context_def browser_live_def context_live_def tracing_start_def
          is_tracing_def buildContextOptions_def env_default_def ENV_def or_default_def Let_def
          closePage_def page_close_def)
  have 2: "getPage (snd (run env_default ?cs ?s0)) = Inr 4"
    by (simp add: manager0_def world0_def thrown_def createPage_def
          createContext_def launchBrowser_def launch_def logger_def newContext_def newPage_def
          existsSync_def resolve_def setDefaultTimeout_def setDefaultNavigationTimeout_def
          update_context_def browser_live_def context_live_def tracing_start_def
          is_tracing_def buildContextOptions_def env_default_def ENV_def or_default_def Let_def
          closePage_def page_close_def closeContext_def context_close_def getPage_def)
  have "snd (run env_default ?cs ?s0) = snd (run env_default ?cs ?s0)
          \<and> page_first env_default ?cs ?s0 \<longrightarrow>
        (\<forall>p. getPage (snd (run env_default ?cs ?s0)) = Inr p \<longrightarrow>
               page_live (fst (snd (run env_default ?cs ?s0))) p)"
    using C5_getters [of "snd (run env_default ?cs ?s0)" env_default ?cs "[]" "''/repo''"
                        4242 1700000000000]
    by blast
  with 1 2 have 3: "page_live (fst (snd (run env_default ?cs ?s0))) 4"
    by blast
  from 1 2 3 show ?thesis unfolding state0_def by blast
qed

subsection \<open>Creating a context\<close>

lemma ids_ok_simps [simp]:
  "ids_ok (logger l msg w) = ids_ok w"
  "ids_ok (mkdirSync d w) = ids_ok w"
  "ids_ok (writeFileSync p dat w) = ids_ok w"
  "ids_ok (page_close pg w) = ids_ok w"
  by (simp_all add: ids_ok_def logger_def mkdirSync_def writeFileSync_def page_close_def)

lemma ids_ok_update_context [simp]:
  assumes "\<And>x. cid (f x) = cid x"
  shows "ids_ok (update_context c f w) = ids_ok w"
proof -
  have "(\<lambda>x. cid (if cid x = c then f x else x) < next_id w) = (\<lambda>x. cid x < next_id w)"
    using assms by auto
  then show ?thesis
    by (simp add: ids_ok_def update_context_def list.pred_map comp_def)
qed

lemma ids_ok_setTimeouts [simp]:
  "ids_ok (setDefaultTimeout c t w) = ids_ok w"
  "ids_ok (setDefaultNavigationTimeout c t w) = ids_ok w"
  by (simp_all add: setDefaultTimeout_def setDefaultNavigationTimeout_def)


lemma ids_ok_launch: "launch eng opts w = (b, w') \<Longrightarrow> ids_ok w \<Longrightarrow> ids_ok w'"
  by (auto simp: launch_def ids_ok_def list_all_iff less_Suc_eq)











lemma fresh_not_tracing:
  assumes "ids_ok w"
  shows "\<not> (\<exists>x \<in> set (contexts w). cid x = next_id w \<and> P x)"
  using assms by (auto simp: ids_ok_def list_all_iff)
















subsection \<open>Saving the trace\<close>

lemma of_char_digit_char: "d < 10 \<Longrightarrow> (of_char (digit_char d) :: nat) = 48 + d"
proof -
  assume "d < 10"
  then have "d = 0 \<or> d = 1 \<or> d = 2 \<or> d = 3 \<or> d = 4 \<or> d = 5 \<or> d = 6 \<or> d = 7 \<or> d = 8 \<or> d = 9"
    by arith
  then show ?thesis
    by (elim disjE) (simp_all add: digit_char_def)
qed

lemma is_digit_digit_char: "d < 10 \<Longrightarrow> is_digit (digit_char d)"
  by (simp add: is_digit_def of_char_digit_char)

lemma show_nat_digits: "\<forall>c \<in> set (show_nat n). is_digit c"
proof (induction n rule: show_nat.induct)
  case (1 n)
  show ?case
  proof (cases "n < 10")
    case True
    then show ?thesis by (subst show_nat.simps) (simp add: is_digit_digit_char)
  next
    case False
    have "is_digit (digit_char (n mod 10))" by (simp add: is_digit_digit_char)
    then show ?thesis using False 1 by (subst show_nat.simps) simp
  qed
qed

lemma digits_value_snoc:
  "digits_value (ds @ [c]) = 10 * digits_value ds + ((of_char c :: nat) - 48)"
  by (simp add: digits_value_def)

lemma digits_value_show_nat: "digits_value (show_nat n) = n"
proof (induction n rule: show_nat.induct)
  case (1 n)
  show ?case
  proof (cases "n < 10")
    case True
    then show ?thesis
      by (subst show_nat.simps) (simp add: digits_value_def of_char_digit_char)
  next
    case False
    then have "digits_value (show_nat n)
                 = 10 * digits_value (show_nat (n div 10)) + ((of_char (digit_char (n mod 10)) :: nat) - 48)"
      by (subst show_nat.simps) (simp add: digits_value_snoc)
    also have "\<dots> = 10 * (n div 10) + n mod 10"
      using 1 False by (simp add: of_char_digit_char)
    finally show ?thesis by simp
  qed
qed

lemma show_nat_inj: "show_nat m = show_nat n \<longleftrightarrow> m = n"
  by (metis digits_value_show_nat)

lemma underscore_not_digit: "\<not> is_digit (CHR ''_'')"
  by (simp add: is_digit_def)

lemma split_at_separator:
  assumes "xs @ a # ys = xs' @ a # ys'" and "a \<notin> set xs" and "a \<notin> set xs'"
  shows "xs = xs' \<and> ys = ys'"
  using assms
proof (induction xs arbitrary: xs')
  case Nil
  then show ?case by (cases xs') auto
next
  case (Cons x xs)
  then show ?case by (cases xs') auto
qed

lemma pid_stamp_inj:
  "show_nat p1 @ CHR ''_'' # show_nat t1 = show_nat p2 @ CHR ''_'' # show_nat t2
     \<longleftrightarrow> p1 = p2 \<and> t1 = t2"
proof
  assume a: "show_nat p1 @ CHR ''_'' # show_nat t1 = show_nat p2 @ CHR ''_'' # show_nat t2"
  have "CHR ''_'' \<notin> set (show_nat p1)" "CHR ''_'' \<notin> set (show_nat p2)"
    using show_nat_digits underscore_not_digit by blast+
  then have "show_nat p1 = show_nat p2 \<and> show_nat t1 = show_nat t2"
    using split_at_separator [OF a] by simp
  then show "p1 = p2 \<and> t1 = t2" by (simp add: show_nat_inj)
next
  assume "p1 = p2 \<and> t1 = t2"
  then show "show_nat p1 @ CHR ''_'' # show_nat t1 = show_nat p2 @ CHR ''_'' # show_nat t2"
    by simp
qed

lemma tracePath_shape:
  "tracePath name p t
     = ''test-results/traces/'' @ (if sanitize name = [] then ''scenario'' else sanitize name)
       @ ''_'' @ show_nat p @ ''_'' @ show_nat t @ ''.zip''"
  by (simp add: tracePath_def join_def or_default_def Let_def)

lemma tracePath_inj: "tracePath name p1 t1 = tracePath name p2 t2 \<longleftrightarrow> p1 = p2 \<and> t1 = t2"
proof -
  define pre where
    "pre = ''test-results/traces/'' @ (if sanitize name = [] then ''scenario'' else sanitize name) @ ''_''"
  have sh: "tracePath name p t = pre @ (show_nat p @ CHR ''_'' # show_nat t) @ ''.zip''" for p t
    by (simp add: tracePath_shape pre_def)
  have "tracePath name p1 t1 = tracePath name p2 t2
          \<longleftrightarrow> show_nat p1 @ CHR ''_'' # show_nat t1 = show_nat p2 @ CHR ''_'' # show_nat t2"
    unfolding sh by (simp only: same_append_eq append_same_eq)
  then show ?thesis by (simp only: pid_stamp_inj)
qed

lemma replace_runs_set: "set (replace_runs P s) \<subseteq> {c \<in> set s. \<not> P c} \<union> {CHR ''_''}"
proof (induction P s rule: replace_runs.induct)
  case (1 P)
  then show ?case by simp
next
  case (2 P c cs)
  show ?case
  proof (cases "P c")
    case True
    have "set (dropWhile P cs) \<subseteq> set cs" by (auto dest: set_dropWhileD)
    then show ?thesis using True 2 by auto
  next
    case False
    then show ?thesis using 2 by auto
  qed
qed

lemma strip_edge_underscores_set: "set (strip_edge_underscores s) \<subseteq> set s"
proof -
  have "set (butlast xs) \<subseteq> set xs" for xs :: string
    by (auto dest: in_set_butlastD)
  then show ?thesis
    by (auto simp: strip_edge_underscores_def Let_def split: list.splits if_splits
          dest: in_set_butlastD)
qed

lemma sanitize_chars: "\<forall>c \<in> set (sanitize name). is_name_char c"
proof
  fix c
  assume "c \<in> set (sanitize name)"
  then have "c \<in> set (replace_runs (\<lambda>c. c = CHR ''_'') (replace_runs (\<lambda>c. \<not> is_name_char c) name))"
    using strip_edge_underscores_set by (auto simp: sanitize_def)
  then have "c = CHR ''_'' \<or> c \<in> set (replace_runs (\<lambda>c. \<not> is_name_char c) name)"
    using replace_runs_set [of "\<lambda>c. c = CHR ''_''"] by auto
  then have "c = CHR ''_'' \<or> is_name_char c"
    using replace_runs_set [of "\<lambda>c. \<not> is_name_char c" name] by auto
  then show "is_name_char c" by (auto simp: is_name_char_def)
qed

lemma saveTrace_null_iff:
  "fst (saveTrace E name s) = Inr None \<longleftrightarrow> m_context (snd s) = None \<or> \<not> TRACE_ON_FAILURE E"
  by (simp add: saveTrace_def Let_def split: option.splits sum.splits)

lemma saveTrace_written:
  assumes "m_context (snd s) = Some c" and "TRACE_ON_FAILURE E"
    and "context_live (fst s) c" and "is_tracing (fst s) c"
  shows "fst (saveTrace E name s) = Inr (Some (tracePath name (pid (fst s)) (now (fst s))))"
    and "\<exists>dat. map_of (files (fst (snd (saveTrace E name s))))
                  (tracePath name (pid (fst s)) (now (fst s))) = Some dat"
proof -
  let ?w1 = "if \<not> existsSync ''test-results/traces'' (fst s)
             then mkdirSync ''test-results/traces'' (fst s) else fst s"
  let ?tp = "tracePath name (pid (fst s)) (now (fst s))"
  have w1a: "pid ?w1 = pid (fst s)" "now ?w1 = now (fst s)" "is_tracing ?w1 c"
    using assms(4) by (simp_all add: mkdirSync_def is_tracing_def)
  have w1b: "context_live ?w1 c"
    using assms(3) by simp
  note w1 = w1a(1,2) w1b w1a(3)
  let ?w2 = "writeFileSync ?tp (''trace of context '' @ show_nat c)
               (update_context c (\<lambda>x. x\<lparr>tracing := False\<rparr>) ?w1)"
  have ts: "tracing_stop c ?tp ?w1 = Inr ?w2"
    using w1(3,4) by (simp add: tracing_stop_def)
  have r: "saveTrace E name s = (Inr (Some ?tp), (logger Info (''Trace saved: '' @ ?tp) ?w2, snd s))"
    using assms(1,2) ts w1(1,2) by (simp add: saveTrace_def Let_def)
  show "fst (saveTrace E name s) = Inr (Some ?tp)" by (simp add: r)
  have "map_of (files (logger Info (''Trace saved: '' @ ?tp) ?w2)) ?tp
          = Some (''trace of context '' @ show_nat c)"
    by (simp add: logger_def writeFileSync_def)
  then show "\<exists>dat. map_of (files (fst (snd (saveTrace E name s)))) ?tp = Some dat"
    by (simp add: r)
qed

text \<open>
  C7, as stated: saveTrace returns null if and only if tracing was disabled. It also
  returns null when no context is held, whatever the setting. Here tracing is enabled
  and the manager has no context.
\<close>

theorem C7_counterexample:
  "TRACE_ON_FAILURE env_trace \<and> saveTrace env_trace ''Login works'' state0 = (Inr None, state0)"
  by (simp add: env_trace_def ENV_def saveTrace_def state0_def manager0_def)

text \<open>
  C7, amended: saveTrace returns null if and only if no context is held or tracing is
  disabled. Otherwise it stops the trace recording into the file
  \<open>test-results/traces/<name>_<pid>_<timestamp>.zip\<close>, where the name is the sanitized
  scenario name (only letters, digits, underscore and hyphen), or \<open>scenario\<close> when that
  is empty, and the process id and the millisecond timestamp are in decimal; when the
  recording is active the file is written and its path returned. For one scenario name,
  two paths are equal only if both the process id and the timestamp are equal.
\<close>

theorem C7_saveTrace:
  "(fst (saveTrace E name s) = Inr None \<longleftrightarrow> m_context (snd s) = None \<or> \<not> TRACE_ON_FAILURE E)
   \<and> (\<forall>c. m_context (snd s) = Some c \<and> TRACE_ON_FAILURE E \<and> context_live (fst s) c
            \<and> is_tracing (fst s) c \<longrightarrow>
          fst (saveTrace E name s) = Inr (Some (tracePath name (pid (fst s)) (now (fst s))))
          \<and> (\<exists>dat. map_of (files (fst (snd (saveTrace E name s))))
                      (tracePath name (pid (fst s)) (now (fst s))) = Some dat))
   \<and> tracePath name p t
       = ''test-results/traces/'' @ (if sanitize name = [] then ''scenario'' else sanitize name)
         @ ''_'' @ show_nat p @ ''_'' @ show_nat t @ ''.zip''
   \<and> (\<forall>c \<in> set (sanitize name). is_name_char c)
   \<and> (tracePath name p1 t1 = tracePath name p2 t2 \<longleftrightarrow> p1 = p2 \<and> t1 = t2)"
proof (intro conjI allI impI)
  show "fst (saveTrace E name s) = Inr None \<longleftrightarrow> m_context (snd s) = None \<or> \<not> TRACE_ON_FAILURE E"
    by (rule saveTrace_null_iff)
next
  fix c
  assume a: "m_context (snd s) = Some c \<and> TRACE_ON_FAILURE E \<and> context_live (fst s) c
            \<and> is_tracing (fst s) c"
  have a1: "m_context (snd s) = Some c" and a2: "TRACE_ON_FAILURE E"
    and a3: "context_live (fst s) c" and a4: "is_tracing (fst s) c"
    using a by simp_all
  show "fst (saveTrace E name s) = Inr (Some (tracePath name (pid (fst s)) (now (fst s))))"
    by (rule saveTrace_written(1) [OF a1 a2 a3 a4])
  show "\<exists>dat. map_of (files (fst (snd (saveTrace E name s))))
                 (tracePath name (pid (fst s)) (now (fst s))) = Some dat"
    by (rule saveTrace_written(2) [OF a1 a2 a3 a4])
next
  show "tracePath name p t
       = ''test-results/traces/'' @ (if sanitize name = [] then ''scenario'' else sanitize name)
         @ ''_'' @ show_nat p @ ''_'' @ show_nat t @ ''.zip''"
    by (rule tracePath_shape)
next
  show "\<forall>c \<in> set (sanitize name). is_name_char c" by (rule sanitize_chars)
next
  show "tracePath name p1 t1 = tracePath name p2 t2 \<longleftrightarrow> p1 = p2 \<and> t1 = t2"
    by (rule tracePath_inj)
qed

lemma tracePath_example:
  "tracePath ''Login works #1'' 4242 1700000000000
     = ''test-results/traces/Login_works_1_4242_1700000000000.zip''"
  by (simp add: tracePath_def join_def or_default_def Let_def sanitize_def
        strip_edge_underscores_def is_name_char_def show_nat.simps digit_char_def)

theorem C7_saveTrace_witness:
  "m_context (snd state_tracing) = Some 1 \<and> TRACE_ON_FAILURE env_trace
   \<and> context_live (fst state_tracing) 1 \<and> is_tracing (fst state_tracing) 1
   \<and> pid (fst state_tracing) = 4242 \<and> now (fst state_tracing) = 1700000000000
   \<and> fst (saveTrace env_trace ''Login works #1'' state_tracing)
       = Inr (Some ''test-results/traces/Login_works_1_4242_1700000000000.zip'')
   \<and> tracePath ''Login works #1'' 4242 1700000000000
       \<noteq> tracePath ''Login works #1'' 4243 1700000000000"
proof -
  have st: "m_context (snd state_tracing) = Some 1" "context_live (fst state_tracing) 1"
    "is_tracing (fst state_tracing) 1" "pid (fst state_tracing) = 4242"
    "now (fst state_tracing) = 1700000000000"
    by (simp_all add: state_tracing_def state0_def manager0_def world0_def thrown_def
          createContext_def launchBrowser_def launch_def logger_def newContext_def
          existsSync_def resolve_def setDefaultTimeout_def setDefaultNavigationTimeout_def
          update_context_def browser_live_def context_live_def tracing_start_def
          is_tracing_def buildContextOptions_def env_trace_def ENV_def or_default_def Let_def)
  have tr: "TRACE_ON_FAILURE env_trace" by (simp add: env_trace_def ENV_def)
  note t = C7_saveTrace [of env_trace "''Login works #1''" state_tracing 4242 1700000000000
                            4242 1700000000000 4243 1700000000000]
  have h: "m_context (snd state_tracing) = Some 1 \<and> TRACE_ON_FAILURE env_trace
             \<and> context_live (fst state_tracing) 1 \<and> is_tracing (fst state_tracing) 1"
    using st tr by simp
  have 1: "fst (saveTrace env_trace ''Login works #1'' state_tracing)
             = Inr (Some (tracePath ''Login works #1'' (pid (fst state_tracing))
                            (now (fst state_tracing))))"
    using mp [OF spec [OF conjunct1 [OF conjunct2 [OF t]]] h] by (rule conjunct1)
  have 2: "tracePath ''Login works #1'' 4242 1700000000000
             \<noteq> tracePath ''Login works #1'' 4243 1700000000000"
    using conjunct2 [OF conjunct2 [OF conjunct2 [OF conjunct2 [OF t]]]] by simp
  have 3: "fst (saveTrace env_trace ''Login works #1'' state_tracing)
       = Inr (Some ''test-results/traces/Login_works_1_4242_1700000000000.zip'')"
    using 1 by (simp only: st(4,5) tracePath_example)
  show ?thesis
    by (intro conjI) (rule st tr 2 3)+
qed

subsection \<open>The screenshot of every step\<close>

















end
